theory Spec2Isabelle
  imports Main
begin

section \<open>Go strings as byte sequences\<close>

text \<open>
  A Go \<^verbatim>\<open>string\<close> is a sequence of bytes, here a \<^typ>\<open>string\<close> (a list of 8-bit
  characters). The functions of Go's \<^verbatim>\<open>strings\<close> and \<^verbatim>\<open>path/filepath\<close> packages
  that the server calls are written out below. \<^verbatim>\<open>HasPrefix\<close>, \<^verbatim>\<open>HasSuffix\<close>,
  \<^verbatim>\<open>TrimSuffix\<close>, \<^verbatim>\<open>Contains\<close>, \<^verbatim>\<open>Index\<close>, \<^verbatim>\<open>ReplaceAll\<close>, \<^verbatim>\<open>Split\<close> and
  \<^verbatim>\<open>Join\<close> work on bytes in Go as they do here. \<^verbatim>\<open>TrimSpace\<close>, \<^verbatim>\<open>ToUpper\<close> and
  \<^verbatim>\<open>ToLower\<close> are given on the ASCII range, which is what Go computes for a string
  whose bytes are all below 128; theorems that depend on them carry the hypothesis
  \<open>ascii s\<close>.
\<close>

definition ascii :: "string \<Rightarrow> bool" where
  "ascii s = list_all (\<lambda>c. (of_char c :: nat) < 128) s"

definition HasPrefix :: "string \<Rightarrow> string \<Rightarrow> bool" where
  "HasPrefix s p = (take (length p) s = p)"

definition HasSuffix :: "string \<Rightarrow> string \<Rightarrow> bool" where
  "HasSuffix s suf = (length suf \<le> length s \<and> drop (length s - length suf) s = suf)"

definition TrimSuffix :: "string \<Rightarrow> string \<Rightarrow> string" where
  "TrimSuffix s suf = (if HasSuffix s suf then take (length s - length suf) s else s)"

fun Contains :: "string \<Rightarrow> string \<Rightarrow> bool" where
  "Contains [] sub = (sub = [])"
| "Contains (c # cs) sub = (HasPrefix (c # cs) sub \<or> Contains cs sub)"

text \<open>\<^verbatim>\<open>strings.Index\<close>: the byte offset of the first occurrence, or -1.\<close>

fun Index :: "string \<Rightarrow> string \<Rightarrow> int" where
  "Index [] sub = (if sub = [] then 0 else -1)"
| "Index (c # cs) sub =
     (if HasPrefix (c # cs) sub then 0
      else (let i = Index cs sub in if i = -1 then -1 else i + 1))"

text \<open>
  \<^verbatim>\<open>strings.ReplaceAll\<close>: the non-overlapping occurrences of \<open>old\<close>, found from left to
  right, are replaced. With an empty \<open>old\<close> Go inserts \<open>new\<close> before every character and
  at the end (every character of an ASCII string is one byte).
\<close>

fun ReplaceAll :: "string \<Rightarrow> string \<Rightarrow> string \<Rightarrow> string" where
  "ReplaceAll [] old new = (if old = [] then new else [])"
| "ReplaceAll (c # cs) old new =
     (if old = [] then new @ c # ReplaceAll cs old new
      else if HasPrefix (c # cs) old
        then new @ ReplaceAll (drop (length old) (c # cs)) old new
      else c # ReplaceAll cs old new)"

text \<open>
  \<^verbatim>\<open>strings.Split\<close>. Every call of the server passes a separator of one byte
  (\<^verbatim>\<open>"/"\<close>, \<^verbatim>\<open>";"\<close>, a newline), so the separator is a character. The result is never
  empty: splitting the empty string gives one empty piece.
\<close>

fun Split :: "string \<Rightarrow> char \<Rightarrow> string list" where
  "Split [] sep = [[]]"
| "Split (c # cs) sep =
     (if c = sep then [] # Split cs sep
      else (case Split cs sep of
              [] \<Rightarrow> [[c]]
            | p # ps \<Rightarrow> (c # p) # ps))"

fun Join :: "string list \<Rightarrow> string \<Rightarrow> string" where
  "Join [] sep = []"
| "Join [x] sep = x"
| "Join (x # y # ys) sep = x @ sep @ Join (y # ys) sep"

text \<open>
  Go's table of ASCII white space (\<^verbatim>\<open>strings.TrimSpace\<close>): tab, line feed, vertical
  tab, form feed, carriage return and the space.
\<close>

definition isSpace :: "char \<Rightarrow> bool" where
  "isSpace c = (let n = (of_char c :: nat) in (9 \<le> n \<and> n \<le> 13) \<or> n = 32)"

definition TrimSpace :: "string \<Rightarrow> string" where
  "TrimSpace s = rev (dropWhile isSpace (rev (dropWhile isSpace s)))"

definition upper_code :: "nat \<Rightarrow> nat" where
  "upper_code n = (if 97 \<le> n \<and> n \<le> 122 then n - 32 else n)"

definition lower_code :: "nat \<Rightarrow> nat" where
  "lower_code n = (if 65 \<le> n \<and> n \<le> 90 then n + 32 else n)"

definition ToUpper :: "string \<Rightarrow> string" where
  "ToUpper s = map (\<lambda>c. char_of (upper_code (of_char c))) s"

definition ToLower :: "string \<Rightarrow> string" where
  "ToLower s = map (\<lambda>c. char_of (lower_code (of_char c))) s"

text \<open>
  \<^verbatim>\<open>path/filepath\<close> on a system whose separator is the slash: \<^verbatim>\<open>ToSlash\<close> changes
  nothing, and \<^verbatim>\<open>Base\<close> returns the last element of the path after removing trailing
  slashes (\<^verbatim>\<open>"."\<close> for the empty path, \<^verbatim>\<open>"/"\<close> for a path of slashes only).
\<close>

definition ToSlash :: "string \<Rightarrow> string" where
  "ToSlash path = path"

definition Base :: "string \<Rightarrow> string" where
  "Base path =
     (if path = [] then ''.''
      else (let stripped = rev (dropWhile (\<lambda>c. c = CHR ''/'') (rev path));
                element = rev (takeWhile (\<lambda>c. c \<noteq> CHR ''/'') (rev stripped))
            in if element = [] then ''/'' else element))"

section \<open>The path-to-route compiler (sql\_to\_http.go)\<close>

text \<open>
  The \<^verbatim>\<open>Endpoint\<close> struct. Its \<^verbatim>\<open>Handler\<close> field is the closure
  \<^verbatim>\<open>CreateHandler(db, sqlPath)\<close>, which the request handler below models as a function
  of the SQL path; the record holds the other fields.
\<close>

record Endpoint =
  Path :: string
  Method :: string
  SQLPath :: string
  TableName :: string
  IsUniversal :: bool

text \<open>
  The first loop of \<^verbatim>\<open>RouteFromPath\<close>: the index of the first path component equal
  to \<^verbatim>\<open>Tables\<close>, or -1.
\<close>

fun tablesIndex :: "string list \<Rightarrow> int" where
  "tablesIndex [] = -1"
| "tablesIndex (part # parts) =
     (if part = ''Tables'' then 0
      else (let i = tablesIndex parts in if i = -1 then -1 else i + 1))"

definition RouteFromPath :: "string \<Rightarrow> string \<Rightarrow> string" where
  "RouteFromPath sqlPath baseURL =
     (let normalizedPath = ToSlash sqlPath;
          parts = Split normalizedPath (CHR ''/'');
          ti = tablesIndex parts
      in if ti = -1 \<or> ti + 3 \<ge> int (length parts)
         then (let filename = Base sqlPath;
                   name = TrimSuffix filename ''.sql''
               in baseURL @ ''/'' @ name)
         else (let tableName = parts ! nat (ti + 1);
                   filename = parts ! (length parts - 1);
                   endpointName = TrimSuffix filename ''.sql''
               in baseURL @ ''/'' @ tableName @ ''/'' @ endpointName))"

definition httpMethods :: "string list" where
  "httpMethods = [''GET'', ''POST'', ''PUT'', ''DELETE'']"

text \<open>
  The nested loop of \<^verbatim>\<open>MethodFromPath\<close>: the first path component that, in upper
  case, equals one of the four method names decides.
\<close>

fun methodDirectory :: "string list \<Rightarrow> string option" where
  "methodDirectory [] = None"
| "methodDirectory (part # parts) =
     (case find (\<lambda>method. ToUpper part = method) httpMethods of
        Some method \<Rightarrow> Some method
      | None \<Rightarrow> methodDirectory parts)"

definition MethodFromPath :: "string \<Rightarrow> string" where
  "MethodFromPath sqlPath =
     (let normalizedPath = ToSlash sqlPath;
          parts = Split normalizedPath (CHR ''/'')
      in case methodDirectory parts of
           Some method \<Rightarrow> method
         | None \<Rightarrow>
            (let filename = TrimSuffix (ToLower (Base sqlPath)) ''.sql''
             in if Contains filename ''select'' \<or> Contains filename ''get''
                     \<or> Contains filename ''find'' then ''GET''
                else if Contains filename ''insert'' \<or> Contains filename ''create''
                     \<or> Contains filename ''add'' then ''POST''
                else if Contains filename ''update'' \<or> Contains filename ''put''
                     \<or> Contains filename ''modify'' then ''PUT''
                else if Contains filename ''delete'' \<or> Contains filename ''remove''
                     then ''DELETE''
                else ''GET''))"

text \<open>
  The loop of \<^verbatim>\<open>ExtractTableName\<close>: the component after the first \<^verbatim>\<open>Tables\<close>
  component that has a successor; the empty string when there is none.
\<close>

fun tableAfterMarker :: "string list \<Rightarrow> string" where
  "tableAfterMarker [] = []"
| "tableAfterMarker [part] = []"
| "tableAfterMarker (part # next # parts) =
     (if part = ''Tables'' then next else tableAfterMarker (next # parts))"

definition ExtractTableName :: "string \<Rightarrow> string" where
  "ExtractTableName sqlPath = tableAfterMarker (Split (ToSlash sqlPath) (CHR ''/''))"

definition AssembleEndpoint :: "string \<Rightarrow> string \<Rightarrow> Endpoint" where
  "AssembleEndpoint sqlPath baseURL =
     \<lparr> Path = RouteFromPath sqlPath baseURL,
       Method = MethodFromPath sqlPath,
       SQLPath = sqlPath,
       TableName = ExtractTableName sqlPath,
       IsUniversal = (\<not> Contains sqlPath ''Tables/'') \<rparr>"

section \<open>The template processor\<close>

text \<open>
  A request parameter is an \<^verbatim>\<open>interface{}\<close> value: a string from the query string, or
  whatever \<^verbatim>\<open>encoding/json\<close> decodes into an \<^verbatim>\<open>interface{}\<close> (string, float64, bool,
  nil, slice, map). The numbers are never inspected, so their type is left abstract.
  A \<^verbatim>\<open>map[string]interface{}\<close> is an association list whose first binding of a key
  is the map's entry; \<open>mapLen\<close> is Go's \<^verbatim>\<open>len\<close>, the number of keys.
\<close>

typedecl float64

datatype jvalue =
    JString string
  | JNumber float64
  | JBool bool
  | JNull
  | JArray "jvalue list"
  | JObject "(string \<times> jvalue) list"

type_synonym params = "(string \<times> jvalue) list"

definition mapLen :: "params \<Rightarrow> nat" where
  "mapLen ps = length (remdups (map fst ps))"

text \<open>The assignment \<^verbatim>\<open>params[key] = value\<close>.\<close>

definition mapSet :: "params \<Rightarrow> string \<Rightarrow> jvalue \<Rightarrow> params" where
  "mapSet ps key v = (key, v) # filter (\<lambda>kv. fst kv \<noteq> key) ps"

text \<open>The type assertion \<^verbatim>\<open>params[key].(string)\<close>: the string, when the key is bound to one.\<close>

definition stringParam :: "params \<Rightarrow> string \<Rightarrow> string option" where
  "stringParam ps key = (case map_of ps key of Some (JString s) \<Rightarrow> Some s | _ \<Rightarrow> None)"

definition ProcessSQLTemplate :: "string \<Rightarrow> string \<Rightarrow> params \<Rightarrow> string" where
  "ProcessSQLTemplate sqlContent tableName ps =
     (let result = sqlContent;
          result = (if tableName \<noteq> [] then ReplaceAll result ''{{table}}'' tableName
                    else result);
          result = (if Contains result ''{{columns}}''
                    then (case stringParam ps ''columns'' of
                            Some columnList \<Rightarrow> ReplaceAll result ''{{columns}}'' columnList
                          | None \<Rightarrow> ReplaceAll result ''{{columns}}'' ''*'')
                    else result);
          result = (if Contains result ''{{values}}''
                    then (case stringParam ps ''values'' of
                            Some valueList \<Rightarrow> ReplaceAll result ''{{values}}'' valueList
                          | None \<Rightarrow>
                              (let placeholders = replicate (mapLen ps) ''?''
                               in ReplaceAll result ''{{values}}'' (Join placeholders '', '')))
                    else result);
          result = (if Contains result ''{{updates}}''
                    then (case stringParam ps ''updates'' of
                            Some updateList \<Rightarrow> ReplaceAll result ''{{updates}}'' updateList
                          | None \<Rightarrow> ReplaceAll result ''{{updates}}'' ''column = ?'')
                    else result)
      in result)"

text \<open>
  What it is for a text to contain a placeholder, said without the search loop: the
  placeholder stands somewhere between a left and a right part.
\<close>

definition occurs_in :: "string \<Rightarrow> string \<Rightarrow> bool" where
  "occurs_in sub s = (\<exists>u v. s = u @ sub @ v)"

section \<open>The relational store wrapper (database.go)\<close>

subsection \<open>Schema normalisation\<close>

text \<open>
  \<^verbatim>\<open>cleanSQLSchema\<close>: every line is trimmed; blank lines and lines that start with
  \<^verbatim>\<open>--\<close> are dropped; what follows a \<^verbatim>\<open>--\<close> inside a line is cut off.
\<close>

definition cleanLine :: "string \<Rightarrow> string option" where
  "cleanLine line =
     (let trimmed = TrimSpace line
      in if trimmed = [] then None
         else if HasPrefix trimmed ''--'' then None
         else (let commentIndex = Index trimmed ''--''
               in if commentIndex \<noteq> -1
                  then (let trimmed = TrimSpace (take (nat commentIndex) trimmed)
                        in if trimmed = [] then None else Some trimmed)
                  else Some trimmed))"

definition cleanSQLSchema :: "string \<Rightarrow> string" where
  "cleanSQLSchema schema =
     (let lines = Split schema (CHR 0x0A);
          cleanedLines = List.map_filter cleanLine lines
      in Join cleanedLines [CHR 0x0A])"

text \<open>
  The regular expression \<^verbatim>\<open>(?i)CREATE\s+TABLE\s+\<close>. Under \<^verbatim>\<open>(?i)\<close> a letter of the
  pattern matches itself in either case; \<^verbatim>\<open>\s\<close> is tab, line feed, form feed, carriage
  return or space. A run \<^verbatim>\<open>\s+\<close> is greedy, and since what follows the first run is
  a letter and nothing follows the second, a match takes each run whole. The matchers
  return what is left of the input after the match.
\<close>

definition reSpace :: "char \<Rightarrow> bool" where
  "reSpace c = (let n = (of_char c :: nat) in n = 9 \<or> n = 10 \<or> n = 12 \<or> n = 13 \<or> n = 32)"

fun matchFold :: "string \<Rightarrow> string \<Rightarrow> string option" where
  "matchFold [] s = Some s"
| "matchFold (l # ls) [] = None"
| "matchFold (l # ls) (c # cs) =
     (if upper_code (of_char c) = upper_code (of_char l) then matchFold ls cs else None)"

definition matchSpaces :: "string \<Rightarrow> string option" where
  "matchSpaces s =
     (case s of
        [] \<Rightarrow> None
      | c # cs \<Rightarrow> if reSpace c then Some (dropWhile reSpace cs) else None)"

definition matchCreateTable :: "string \<Rightarrow> string option" where
  "matchCreateTable s =
     (case matchFold ''CREATE'' s of
        None \<Rightarrow> None
      | Some s1 \<Rightarrow>
         (case matchSpaces s1 of
            None \<Rightarrow> None
          | Some s2 \<Rightarrow>
             (case matchFold ''TABLE'' s2 of
                None \<Rightarrow> None
              | Some s3 \<Rightarrow> matchSpaces s3)))"

lemma matchFold_length: "matchFold lit s = Some r \<Longrightarrow> length r \<le> length s"
  by (induction lit s rule: matchFold.induct) (auto split: if_splits)

lemma matchSpaces_length: "matchSpaces s = Some r \<Longrightarrow> length r < length s"
  by (auto simp: matchSpaces_def less_Suc_eq_le length_dropWhile_le
           split: list.splits if_splits)

lemma matchCreateTable_length: "matchCreateTable s = Some r \<Longrightarrow> length r < length s"
  unfolding matchCreateTable_def
  by (auto split: option.splits dest!: matchFold_length matchSpaces_length)

text \<open>
  \<^verbatim>\<open>ReplaceAllString\<close> with that expression and the replacement
  \<^verbatim>\<open>"CREATE TABLE IF NOT EXISTS "\<close>: the matches are found from left to right, the search
  going on after the end of each match.
\<close>

function fixCreateTable :: "string \<Rightarrow> string" where
  "fixCreateTable [] = []"
| "fixCreateTable (c # cs) =
     (case matchCreateTable (c # cs) of
        Some rest \<Rightarrow> ''CREATE TABLE IF NOT EXISTS '' @ fixCreateTable rest
      | None \<Rightarrow> c # fixCreateTable cs)"
  by pat_completeness auto
termination
  by (relation "measure length") (auto dest: matchCreateTable_length)

subsection \<open>The connection the wrapper drives\<close>

text \<open>
  \<^verbatim>\<open>database/sql\<close> and the SQLite driver are not part of the repository. The wrapper
  reaches them through four calls, which are parameters here: their results are whatever
  the engine answers, and the connection's state \<open>'c\<close> is threaded through. A column
  value is what \<^verbatim>\<open>Scan\<close> stores into an \<^verbatim>\<open>interface{}\<close>. A result set gives the answer
  of \<^verbatim>\<open>Columns\<close>, then for every \<^verbatim>\<open>Next\<close> the error of \<^verbatim>\<open>Scan\<close> (if any) and the
  values it stored, then the answer of \<^verbatim>\<open>Err\<close>.
\<close>

datatype colvalue =
    ColBytes string
  | ColText string
  | ColInt int
  | ColFloat float64
  | ColBool bool
  | ColNull

record sqlRows =
  rowsColumns :: "string + string list"
  rowsScanned :: "(string option \<times> colvalue list) list"
  rowsErr :: "string option"

record 'c sqlDB =
  dbQuery :: "'c \<Rightarrow> string \<Rightarrow> jvalue list \<Rightarrow> (string + sqlRows) \<times> 'c"
  dbExec :: "'c \<Rightarrow> string \<Rightarrow> jvalue list \<Rightarrow> (string + int \<times> int) \<times> 'c"
  dbPing :: "'c \<Rightarrow> string option"
  dbClose :: "'c \<Rightarrow> string option \<times> 'c"

text \<open>
  The result of \<^verbatim>\<open>dbExec\<close> is the pair of \<^verbatim>\<open>RowsAffected\<close> and \<^verbatim>\<open>LastInsertId\<close>; the
  wrapper drops the errors of both.

  The \<^verbatim>\<open>Database\<close> struct. Every method holds the mutex \<^verbatim>\<open>mu\<close> from its first
  statement to its return, so a method is one step on the struct; the mutex itself is not
  a field here. \<^verbatim>\<open>DB\<close> is a pointer and can be nil.
\<close>

record 'c Database =
  DB :: "'c option"
  DbPath :: string
  closed :: bool

text \<open>
  An \<^verbatim>\<open>error\<close> value carries its message; calling a method on the nil \<^verbatim>\<open>DB\<close> pointer
  panics.
\<close>

datatype failure = Err string | NilPointerPanic

text \<open>
  The values \<^verbatim>\<open>ExecSQL\<close> returns as \<^verbatim>\<open>interface{}\<close>. The wrapper of
  \<^verbatim>\<open>gosql/database/database.go\<close> returns the rows as arrays under a header row, or the
  pair of affected rows and last row id. The earlier wrapper (the \<^verbatim>\<open>database.go\<close> that
  follows the README in the sources, and the one under \<^verbatim>\<open>.deprecated\<close>) returns the map
  of \<^verbatim>\<open>columns\<close>, \<^verbatim>\<open>rows\<close> and \<^verbatim>\<open>count\<close>, or the map of \<^verbatim>\<open>last_insert_id\<close>,
  \<^verbatim>\<open>rows_affected\<close> and \<^verbatim>\<open>success\<close>.
\<close>

datatype execResult =
    RowArrays "colvalue list list"
  | AffectedAndLastId int int
  | QueryResult "string list" "(string \<times> colvalue) list list" nat
  | MutationResult int int bool

definition bytesToString :: "colvalue \<Rightarrow> colvalue" where
  "bytesToString v = (case v of ColBytes b \<Rightarrow> ColText b | _ \<Rightarrow> v)"

subsection \<open>ExecSQL, Close and IsHealthy of gosql/database/database.go\<close>

text \<open>
  The two branches of \<^verbatim>\<open>ExecSQL\<close>, which the source writes inside the function: the one
  that calls \<^verbatim>\<open>Query\<close> and returns the header row and the rows (the errors of
  \<^verbatim>\<open>Columns\<close> and \<^verbatim>\<open>Scan\<close> are dropped), and the one that calls \<^verbatim>\<open>Exec\<close>.
\<close>

definition ExecSQL_query ::
  "'c sqlDB \<Rightarrow> 'c Database \<Rightarrow> string \<Rightarrow> jvalue list
     \<Rightarrow> (failure + execResult) \<times> 'c Database" where
  "ExecSQL_query drv d query args =
     (case DB d of
        None \<Rightarrow> (Inl NilPointerPanic, d)
      | Some conn \<Rightarrow>
         (case dbQuery drv conn query args of
            (Inl err, conn') \<Rightarrow> (Inl (Err err), d\<lparr>DB := Some conn'\<rparr>)
          | (Inr rows, conn') \<Rightarrow>
             (let columns = (case rowsColumns rows of Inl err \<Rightarrow> [] | Inr cols \<Rightarrow> cols);
                  headers = map ColText columns;
                  results = headers #
                    map (\<lambda>(err, values). map bytesToString values) (rowsScanned rows)
              in (Inr (RowArrays results), d\<lparr>DB := Some conn'\<rparr>))))"

definition ExecSQL_exec ::
  "'c sqlDB \<Rightarrow> 'c Database \<Rightarrow> string \<Rightarrow> jvalue list
     \<Rightarrow> (failure + execResult) \<times> 'c Database" where
  "ExecSQL_exec drv d query args =
     (case DB d of
        None \<Rightarrow> (Inl NilPointerPanic, d)
      | Some conn \<Rightarrow>
         (case dbExec drv conn query args of
            (Inl err, conn') \<Rightarrow> (Inl (Err err), d\<lparr>DB := Some conn'\<rparr>)
          | (Inr (affected, lastId), conn') \<Rightarrow>
              (Inr (AffectedAndLastId affected lastId), d\<lparr>DB := Some conn'\<rparr>)))"

definition ExecSQL ::
  "'c sqlDB \<Rightarrow> 'c Database \<Rightarrow> string \<Rightarrow> jvalue list
     \<Rightarrow> (failure + execResult) \<times> 'c Database" where
  "ExecSQL drv d query args =
     (if closed d then (Inl (Err ''database is closed''), d)
      else (let query = TrimSpace query
            in if query = [] then (Inl (Err ''empty query''), d)
               else (let queryUpper = ToUpper (TrimSpace query)
                     in if HasPrefix queryUpper ''SELECT''
                        then ExecSQL_query drv d query args
                        else ExecSQL_exec drv d query args)))"

definition Close :: "'c sqlDB \<Rightarrow> 'c Database \<Rightarrow> string option \<times> 'c Database" where
  "Close drv d =
     (if closed d then (None, d)
      else (let d = d\<lparr>closed := True\<rparr>
            in case DB d of
                 Some conn \<Rightarrow> (case dbClose drv conn of (err, conn') \<Rightarrow> (err, d\<lparr>DB := Some conn'\<rparr>))
               | None \<Rightarrow> (None, d)))"

definition IsHealthy :: "'c sqlDB \<Rightarrow> 'c Database \<Rightarrow> bool" where
  "IsHealthy drv d =
     (if closed d \<or> DB d = None then False
      else (case DB d of
              Some conn \<Rightarrow> dbPing drv conn = None
            | None \<Rightarrow> False))"

definition GetConnection :: "'c Database \<Rightarrow> 'c option" where
  "GetConnection d = (if closed d then None else DB d)"

definition GetPath :: "'c Database \<Rightarrow> string" where
  "GetPath d = DbPath d"

text \<open>
  The loop of \<^verbatim>\<open>ApplySchema\<close> over the statements: each is trimmed, an empty one is
  skipped, the others go to \<^verbatim>\<open>Exec\<close>; the first error ends the loop.
\<close>

fun execStatements ::
  "'c sqlDB \<Rightarrow> 'c Database \<Rightarrow> string list \<Rightarrow> failure option \<times> 'c Database" where
  "execStatements drv d [] = (None, d)"
| "execStatements drv d (stmt # statements) =
     (let stmt = TrimSpace stmt
      in if stmt = [] then execStatements drv d statements
         else (case DB d of
                 None \<Rightarrow> (Some NilPointerPanic, d)
               | Some conn \<Rightarrow>
                  (case dbExec drv conn stmt [] of
                     (Inl err, conn') \<Rightarrow>
                       (Some (Err (''failed to execute schema statement '' @ [CHR 0x27] @ stmt
                                     @ [CHR 0x27] @ '': '' @ err)),
                        d\<lparr>DB := Some conn'\<rparr>)
                   | (Inr res, conn') \<Rightarrow> execStatements drv (d\<lparr>DB := Some conn'\<rparr>) statements)))"

definition ApplySchema ::
  "'c sqlDB \<Rightarrow> 'c Database \<Rightarrow> string \<Rightarrow> failure option \<times> 'c Database" where
  "ApplySchema drv d schema =
     (if closed d then (Some (Err ''database is closed''), d)
      else if TrimSpace schema = [] then (None, d)
      else (let cleanedSchema = cleanSQLSchema schema;
                fixedSchema = fixCreateTable cleanedSchema;
                statements = Split fixedSchema (CHR '';'')
            in execStatements drv d statements))"

subsection \<open>NewDatabase\<close>

record Config =
  CfgPath :: string
  CreateIfNotExists :: bool
  Schema :: string

text \<open>
  \<^verbatim>\<open>NewDatabase\<close> makes the directory of the database file (\<open>mkdirFor\<close>, the call
  \<^verbatim>\<open>os.MkdirAll(filepath.Dir(path))\<close>), opens the connection (\<open>sqlOpen\<close>, the call
  \<^verbatim>\<open>sql.Open\<close> with the path and the fixed pragmas), switches foreign keys on (an error
  is logged only), pings, and applies the schema when there is one. The struct it
  returns has \<^verbatim>\<open>closed\<close> at its zero value.
\<close>

definition NewDatabase ::
  "(string \<Rightarrow> string option) \<Rightarrow> (string \<Rightarrow> string + 'c) \<Rightarrow> 'c sqlDB \<Rightarrow> Config
     \<Rightarrow> failure + 'c Database" where
  "NewDatabase mkdirFor sqlOpen drv cfg =
     (let path = (if CfgPath cfg = [] then ''gosql_dir/gosql.db'' else CfgPath cfg)
      in case mkdirFor path of
           Some err \<Rightarrow> Inl (Err (''failed to create database directory: '' @ err))
         | None \<Rightarrow>
            (case sqlOpen (path @ ''?_pragma=journal_mode(WAL)&_pragma=synchronous(NORMAL)''
                             @ ''&_pragma=cache_size(-64000)'') of
               Inl err \<Rightarrow> Inl (Err (''failed to open database: '' @ err))
             | Inr conn \<Rightarrow>
                (let conn = snd (dbExec drv conn ''PRAGMA foreign_keys = ON'' [])
                 in case dbPing drv conn of
                      Some err \<Rightarrow> Inl (Err (''failed to ping database: '' @ err))
                    | None \<Rightarrow>
                       (let db = \<lparr> DB = Some conn, DbPath = path, closed = False \<rparr>
                        in if Schema cfg \<noteq> []
                           then (case ApplySchema drv db (Schema cfg) of
                                   (Some (Err err), db') \<Rightarrow>
                                     Inl (Err (''failed to apply schema: '' @ err))
                                 | (Some NilPointerPanic, db') \<Rightarrow> Inl NilPointerPanic
                                 | (None, db') \<Rightarrow> Inr db')
                           else Inr db))))"

text \<open>
  The methods of \<^verbatim>\<open>*Database\<close> as operations, and what a sequence of calls leaves of
  the struct.
\<close>

datatype storeOp =
    DoExecSQL string "jvalue list"
  | DoApplySchema string
  | DoClose
  | DoIsHealthy
  | DoGetConnection
  | DoGetPath

fun storeStep :: "'c sqlDB \<Rightarrow> 'c Database \<Rightarrow> storeOp \<Rightarrow> 'c Database" where
  "storeStep drv d (DoExecSQL query args) = snd (ExecSQL drv d query args)"
| "storeStep drv d (DoApplySchema schema) = snd (ApplySchema drv d schema)"
| "storeStep drv d DoClose = snd (Close drv d)"
| "storeStep drv d DoIsHealthy = d"
| "storeStep drv d DoGetConnection = d"
| "storeStep drv d DoGetPath = d"

definition runStore :: "'c sqlDB \<Rightarrow> 'c Database \<Rightarrow> storeOp list \<Rightarrow> 'c Database" where
  "runStore drv d ops = foldl (storeStep drv) d ops"

subsection \<open>ExecSQL of the earlier wrapper\<close>

text \<open>
  The \<^verbatim>\<open>database.go\<close> that follows the README in the sources and the one under
  \<^verbatim>\<open>.deprecated/database\<close> have the same \<^verbatim>\<open>ExecSQL\<close>: it tells queries from other
  statements by four keywords and has a function for each kind.
\<close>

fun scanRows ::
  "string list \<Rightarrow> (string option \<times> colvalue list) list
     \<Rightarrow> string + (string \<times> colvalue) list list" where
  "scanRows columns [] = Inr []"
| "scanRows columns ((Some err, scanArgs) # later) = Inl err"
| "scanRows columns ((None, scanArgs) # later) =
     (case scanRows columns later of
        Inl err \<Rightarrow> Inl err
      | Inr resultRows \<Rightarrow> Inr (zip columns (map bytesToString scanArgs) # resultRows))"

definition executeQuery ::
  "'c sqlDB \<Rightarrow> 'c Database \<Rightarrow> string \<Rightarrow> jvalue list
     \<Rightarrow> (failure + execResult) \<times> 'c Database" where
  "executeQuery drv d query args =
     (case DB d of
        None \<Rightarrow> (Inl NilPointerPanic, d)
      | Some conn \<Rightarrow>
         (case dbQuery drv conn query args of
            (Inl err, conn') \<Rightarrow> (Inl (Err (''query failed: '' @ err)), d\<lparr>DB := Some conn'\<rparr>)
          | (Inr rows, conn') \<Rightarrow>
             (case rowsColumns rows of
                Inl err \<Rightarrow>
                  (Inl (Err (''failed to get columns: '' @ err)), d\<lparr>DB := Some conn'\<rparr>)
              | Inr columns \<Rightarrow>
                 (case scanRows columns (rowsScanned rows) of
                    Inl err \<Rightarrow>
                      (Inl (Err (''failed to scan row: '' @ err)), d\<lparr>DB := Some conn'\<rparr>)
                  | Inr resultRows \<Rightarrow>
                     (case rowsErr rows of
                        Some err \<Rightarrow>
                          (Inl (Err (''row iteration error: '' @ err)), d\<lparr>DB := Some conn'\<rparr>)
                      | None \<Rightarrow>
                          (Inr (QueryResult columns resultRows (length resultRows)),
                           d\<lparr>DB := Some conn'\<rparr>))))))"

definition executeExec ::
  "'c sqlDB \<Rightarrow> 'c Database \<Rightarrow> string \<Rightarrow> jvalue list
     \<Rightarrow> (failure + execResult) \<times> 'c Database" where
  "executeExec drv d query args =
     (case DB d of
        None \<Rightarrow> (Inl NilPointerPanic, d)
      | Some conn \<Rightarrow>
         (case dbExec drv conn query args of
            (Inl err, conn') \<Rightarrow> (Inl (Err (''exec failed: '' @ err)), d\<lparr>DB := Some conn'\<rparr>)
          | (Inr (rowsAffected, lastId), conn') \<Rightarrow>
              (Inr (MutationResult lastId rowsAffected True), d\<lparr>DB := Some conn'\<rparr>)))"

definition ExecSQL_deprecated ::
  "'c sqlDB \<Rightarrow> 'c Database \<Rightarrow> string \<Rightarrow> jvalue list
     \<Rightarrow> (failure + execResult) \<times> 'c Database" where
  "ExecSQL_deprecated drv d query args =
     (if closed d then (Inl (Err ''database is closed''), d)
      else (let query = TrimSpace query
            in if query = [] then (Inl (Err ''empty query''), d)
               else (let upperQuery = ToUpper query
                     in if HasPrefix upperQuery ''SELECT'' \<or> HasPrefix upperQuery ''WITH''
                           \<or> HasPrefix upperQuery ''EXPLAIN'' \<or> HasPrefix upperQuery ''PRAGMA''
                        then executeQuery drv d query args
                        else executeExec drv d query args)))"

section \<open>The request execution adapter (sql\_to\_http.go)\<close>

text \<open>
  Of an \<^verbatim>\<open>http.Request\<close> the handler reads the method, the parsed query string
  (\<^verbatim>\<open>r.URL.Query()\<close>, every key with its values) and the body. A response is the status
  written, the headers set and the JSON envelope encoded (\<^verbatim>\<open>success\<close> with \<^verbatim>\<open>data\<close>,
  with the \<^verbatim>\<open>debug\<close> block of the earlier handler, or \<^verbatim>\<open>error\<close>).
\<close>

record request =
  reqMethod :: string
  reqQuery :: "(string \<times> string list) list"
  reqBody :: string

record debugInfo =
  dbgMethod :: string
  dbgSqlPath :: string
  dbgIsUniversal :: bool
  dbgTableName :: string
  dbgProcessedSql :: string

datatype envelope =
    NoBody
  | SuccessData execResult
  | SuccessDebug execResult debugInfo
  | ErrorMessage string

record response =
  statusCode :: nat
  headers :: "(string \<times> string) list"
  body :: envelope

text \<open>
  What the handler takes from outside the repository's sources: \<^verbatim>\<open>database.LoadSQL\<close>
  (the file's text, or the error of reading it) and \<^verbatim>\<open>SQLFile.IsEmpty\<close>, whose package
  file is not among the sources, and the JSON decoder, which gives the decoded object or
  its error for a body.
\<close>

record environment =
  LoadSQL :: "string \<Rightarrow> string + string"
  IsEmpty :: "string \<Rightarrow> bool"
  decodeJSON :: "string \<Rightarrow> string + params"

definition ExtractRequestParams :: "environment \<Rightarrow> request \<Rightarrow> params \<times> string option" where
  "ExtractRequestParams env r =
     (let params = fold (\<lambda>(key, values) ps.
                           case values of
                             [] \<Rightarrow> ps
                           | v # others \<Rightarrow> mapSet ps key (JString v))
                        (reqQuery r) [];
          params = (if reqMethod r = ''POST'' \<or> reqMethod r = ''PUT''
                    then (case decodeJSON env (reqBody r) of
                            Inr bodyParams \<Rightarrow>
                              fold (\<lambda>(key, v) ps. mapSet ps key v) bodyParams params
                          | Inl err \<Rightarrow> params)
                    else params)
      in (params, None))"

text \<open>
  \<^verbatim>\<open>ExecuteSQLFromPath\<close> passes the values of the parameter map as the statement's
  arguments, in the order in which Go iterates the map, which is not fixed; here it is
  the order of the list.
\<close>

definition ExecuteSQLFromPath ::
  "environment \<Rightarrow> 'c sqlDB \<Rightarrow> 'c Database \<Rightarrow> string \<Rightarrow> params
     \<Rightarrow> (failure + execResult) \<times> 'c Database" where
  "ExecuteSQLFromPath env drv db sqlPath ps =
     (case LoadSQL env sqlPath of
        Inl err \<Rightarrow> (Inl (Err (''failed to load SQL file '' @ sqlPath @ '': '' @ err)), db)
      | Inr content \<Rightarrow>
         (if IsEmpty env content then (Inl (Err (''SQL file is empty: '' @ sqlPath)), db)
          else (let tableName = ExtractTableName sqlPath;
                    processedSQL = ProcessSQLTemplate content tableName ps;
                    args = map snd ps
                in ExecSQL drv db processedSQL args)))"

definition WriteJSONResponse :: "(string \<times> string) list \<Rightarrow> nat \<Rightarrow> envelope \<Rightarrow> response" where
  "WriteJSONResponse hs status data =
     \<lparr> statusCode = status,
       headers = hs @ [(''Content-Type'', ''application/json'')],
       body = data \<rparr>"

definition WriteErrorResponse :: "(string \<times> string) list \<Rightarrow> nat \<Rightarrow> string \<Rightarrow> response" where
  "WriteErrorResponse hs status message = WriteJSONResponse hs status (ErrorMessage message)"

definition corsHeaders :: "(string \<times> string) list" where
  "corsHeaders =
     [(''Access-Control-Allow-Origin'', ''*''),
      (''Access-Control-Allow-Methods'', ''GET, POST, PUT, DELETE, OPTIONS''),
      (''Access-Control-Allow-Headers'', ''Content-Type, Authorization'')]"

text \<open>
  \<^verbatim>\<open>CreateHandler(db, sqlPath)\<close> applied to a request. The handler is given the SQL
  path only: the method compiled for the route is not among its arguments. A panic of
  the store ends the handler without a response.
\<close>

definition CreateHandler ::
  "environment \<Rightarrow> 'c sqlDB \<Rightarrow> string \<Rightarrow> 'c Database \<Rightarrow> request
     \<Rightarrow> (failure + response) \<times> 'c Database" where
  "CreateHandler env drv sqlPath db r =
     (if reqMethod r = ''OPTIONS''
      then (Inr \<lparr> statusCode = 200, headers = corsHeaders, body = NoBody \<rparr>, db)
      else (case ExtractRequestParams env r of
              (ps, Some err) \<Rightarrow>
                (Inr (WriteErrorResponse corsHeaders 400
                        (''Failed to extract parameters: '' @ err)), db)
            | (ps, None) \<Rightarrow>
               (case ExecuteSQLFromPath env drv db sqlPath ps of
                  (Inl NilPointerPanic, db') \<Rightarrow> (Inl NilPointerPanic, db')
                | (Inl (Err err), db') \<Rightarrow>
                    (Inr (WriteErrorResponse corsHeaders 500
                            (''SQL execution failed: '' @ err)), db')
                | (Inr result, db') \<Rightarrow>
                    (Inr (WriteJSONResponse corsHeaders 200 (SuccessData result)), db'))))"

section \<open>The earlier handler (.deprecated/httpsetup/httpsetup.go)\<close>

text \<open>
  The handler that \<^verbatim>\<open>CreateHandler\<close> replaced. It is bound to a \<^verbatim>\<open>models.Method\<close>, a
  universal or a table method with its SQL file, and it compares the request's method
  with the one \<^verbatim>\<open>mapHTTPMethod\<close> gives for the method's name before it does anything
  else.
\<close>

record SQLFile =
  FilePath :: string
  Content :: string

datatype sqlMethod =
    UniversalMethods string SQLFile string
  | TableMethods string string SQLFile string

fun GetName :: "sqlMethod \<Rightarrow> string" where
  "GetName (UniversalMethods method sql name) = name"
| "GetName (TableMethods table method sql name) = name"

fun GetSQL :: "sqlMethod \<Rightarrow> SQLFile" where
  "GetSQL (UniversalMethods method sql name) = sql"
| "GetSQL (TableMethods table method sql name) = sql"

fun GetMethod :: "sqlMethod \<Rightarrow> string" where
  "GetMethod (UniversalMethods method sql name) = method"
| "GetMethod (TableMethods table method sql name) = method"

fun IsUniversal_method :: "sqlMethod \<Rightarrow> bool" where
  "IsUniversal_method (UniversalMethods method sql name) = True"
| "IsUniversal_method (TableMethods table method sql name) = False"

definition mapHTTPMethod :: "string \<Rightarrow> string" where
  "mapHTTPMethod name =
     (if name \<in> set [''select'', ''find'', ''get'', ''read'', ''list''] then ''GET''
      else if name \<in> set [''insert'', ''create'', ''add'', ''new''] then ''POST''
      else if name \<in> set [''update'', ''upsert'', ''modify'', ''edit'', ''put''] then ''PUT''
      else if name \<in> set [''delete'', ''remove'', ''drop'', ''destroy''] then ''DELETE''
      else (let lowerName = ToLower name
            in if Contains lowerName ''select'' \<or> Contains lowerName ''find''
                    \<or> Contains lowerName ''get'' \<or> Contains lowerName ''read''
                    \<or> Contains lowerName ''list'' then ''GET''
               else if Contains lowerName ''insert'' \<or> Contains lowerName ''create''
                    \<or> Contains lowerName ''add'' \<or> Contains lowerName ''new'' then ''POST''
               else if Contains lowerName ''update'' \<or> Contains lowerName ''upsert''
                    \<or> Contains lowerName ''modify'' \<or> Contains lowerName ''edit''
                    \<or> Contains lowerName ''put'' then ''PUT''
               else if Contains lowerName ''delete'' \<or> Contains lowerName ''remove''
                    \<or> Contains lowerName ''drop'' \<or> Contains lowerName ''destroy''
                 then ''DELETE''
               else ''GET''))"

text \<open>Of \<^verbatim>\<open>config.Config\<close> the handler reads the two flags.\<close>

record httpConfig =
  EnableCORS :: bool
  DebugMode :: bool

definition handleCORS :: "httpConfig \<Rightarrow> (string \<times> string) list" where
  "handleCORS cfg = (if EnableCORS cfg then corsHeaders else [])"

definition writeResponse :: "(string \<times> string) list \<Rightarrow> nat \<Rightarrow> envelope \<Rightarrow> response" where
  "writeResponse hs status data =
     \<lparr> statusCode = status,
       headers = hs @ [(''Content-Type'', ''application/json'')],
       body = data \<rparr>"

text \<open>\<^verbatim>\<open>extractParams\<close> collects values only: the first of every query key, then the body's.\<close>

definition extractParams :: "environment \<Rightarrow> request \<Rightarrow> jvalue list" where
  "extractParams env r =
     (let ps = concat (map (\<lambda>(key, vals). case vals of [] \<Rightarrow> [] | v # others \<Rightarrow> [JString v])
                           (reqQuery r))
      in if reqMethod r = ''POST'' \<or> reqMethod r = ''PUT''
         then (case decodeJSON env (reqBody r) of
                 Inr bodyParams \<Rightarrow> ps @ map snd bodyParams
               | Inl err \<Rightarrow> ps)
         else ps)"

text \<open>
  \<^verbatim>\<open>processSQL\<close>. The three fixed replacements are made in the iteration order of a Go
  map; no replacement text contains a brace and no two placeholders overlap, so the
  order does not show in the result.
\<close>

definition processSQL :: "sqlMethod \<Rightarrow> jvalue list \<Rightarrow> string" where
  "processSQL m ps =
     (let sql = Content (GetSQL m);
          sql = (case m of
                   TableMethods table method file name \<Rightarrow> ReplaceAll sql ''{{table}}'' table
                 | UniversalMethods method file name \<Rightarrow> sql);
          sql = ReplaceAll sql ''{{columns}}'' ''*'';
          sql = ReplaceAll sql ''{{placeholders}}'' ''?'';
          sql = ReplaceAll sql ''{{updates}}'' ''column = ?''
      in sql)"

definition createHandler ::
  "httpConfig \<Rightarrow> environment \<Rightarrow> 'c sqlDB \<Rightarrow> sqlMethod \<Rightarrow> 'c Database \<Rightarrow> request
     \<Rightarrow> (failure + response) \<times> 'c Database" where
  "createHandler cfg env drv m db r =
     (if reqMethod r = ''OPTIONS''
      then (Inr \<lparr> statusCode = 200, headers = handleCORS cfg, body = NoBody \<rparr>, db)
      else (let expectedMethod = mapHTTPMethod (GetName m)
            in if reqMethod r \<noteq> expectedMethod
               then (Inr (writeResponse (handleCORS cfg) 405
                            (ErrorMessage (''Method '' @ reqMethod r @ '' not allowed. Expected ''
                                             @ expectedMethod))), db)
               else (let ps = extractParams env r;
                         sql = processSQL m ps
                     in case ExecSQL_deprecated drv db sql ps of
                          (Inl NilPointerPanic, db') \<Rightarrow> (Inl NilPointerPanic, db')
                        | (Inl (Err err), db') \<Rightarrow>
                            (Inr (writeResponse (handleCORS cfg) 500 (ErrorMessage err)), db')
                        | (Inr result, db') \<Rightarrow>
                            (if DebugMode cfg
                             then (Inr (writeResponse (handleCORS cfg) 200
                                          (SuccessDebug result
                                             \<lparr> dbgMethod = GetMethod m,
                                               dbgSqlPath = FilePath (GetSQL m),
                                               dbgIsUniversal = IsUniversal_method m,
                                               dbgTableName =
                                                 (case m of
                                                    TableMethods table method file name \<Rightarrow> table
                                                  | UniversalMethods method file name \<Rightarrow> []),
                                               dbgProcessedSql = sql \<rparr>)), db')
                             else (Inr (writeResponse (handleCORS cfg) 200 (SuccessData result)),
                                   db')))))"

section \<open>Ignoring case\<close>

text \<open>
  Two characters are the same letter when they are equal or one is an upper-case ASCII
  letter and the other its lower-case form. A text begins with a keyword, ignoring
  case, when it is a keyword-long start, letter for letter the same, followed by a rest.
\<close>

definition same_letter :: "char \<Rightarrow> char \<Rightarrow> bool" where
  "same_letter a b =
     (let x = (of_char a :: nat); y = (of_char b :: nat)
      in x = y \<or> (65 \<le> x \<and> x \<le> 90 \<and> y = x + 32) \<or> (65 \<le> y \<and> y \<le> 90 \<and> x = y + 32))"

definition equal_fold :: "string \<Rightarrow> string \<Rightarrow> bool" where
  "equal_fold s t = list_all2 same_letter s t"

definition begins_fold :: "string \<Rightarrow> string \<Rightarrow> bool" where
  "begins_fold keyword s = (\<exists>p r. s = p @ r \<and> equal_fold p keyword)"

section \<open>The first value of a query key\<close>

text \<open>
  The parsed query string binds every key to its values. The parameter a key stands for
  is its first value, as a string; a key without values stands for none.
\<close>

definition firstValue :: "(string \<times> string list) list \<Rightarrow> string \<Rightarrow> jvalue option" where
  "firstValue query key =
     (case map_of query key of
        Some (v # others) \<Rightarrow> Some (JString v)
      | _ \<Rightarrow> None)"

section \<open>A recording connection and a one-file environment\<close>

text \<open>
  To run the wrapper and the handler on concrete inputs: a connection whose state is the
  list of the calls it received and which answers every call with success, and an
  environment with one SQL file and a decoder that knows one JSON body.
\<close>

datatype call =
    QueryCall string "jvalue list"
  | ExecCall string "jvalue list"
  | CloseCall

definition recorder :: "call list sqlDB" where
  "recorder =
     \<lparr> dbQuery = (\<lambda>log q args.
         (Inr \<lparr> rowsColumns = Inr [''id''], rowsScanned = [(None, [ColInt 1])], rowsErr = None \<rparr>,
          log @ [QueryCall q args])),
       dbExec = (\<lambda>log q args. (Inr (1, 1), log @ [ExecCall q args])),
       dbPing = (\<lambda>log. None),
       dbClose = (\<lambda>log. (None, log @ [CloseCall])) \<rparr>"

definition openStore :: "call list Database" where
  "openStore = \<lparr> DB = Some [], DbPath = ''gosql_dir/gosql.db'', closed = False \<rparr>"

definition oneFile :: "string \<Rightarrow> string \<Rightarrow> environment" where
  "oneFile path content =
     \<lparr> LoadSQL = (\<lambda>p. if p = path then Inr content
                       else Inl (''open '' @ p @ '': no such file or directory'')),
       IsEmpty = (\<lambda>c. TrimSpace c = []),
       decodeJSON = (\<lambda>b. if b = ''{\"name\": \"Ann\"}'' then Inr [(''name'', JString ''Ann'')]
                          else Inl ''invalid character'') \<rparr>"

section \<open>Facts about the string functions\<close>

lemma HasPrefix_iff: "HasPrefix s p = (\<exists>v. s = p @ v)"
  unfolding HasPrefix_def by (metis append_eq_conv_conj append_take_drop_id)

lemma HasPrefix_Nil [simp]: "HasPrefix s [] = True"
  by (simp add: HasPrefix_def)

lemma Contains_iff: "Contains s sub = occurs_in sub s"
proof (induction s)
  case Nil
  then show ?case by (auto simp: occurs_in_def)
next
  case (Cons c cs)
  show ?case
  proof
    assume "Contains (c # cs) sub"
    then consider "HasPrefix (c # cs) sub" | "Contains cs sub" by auto
    then show "occurs_in sub (c # cs)"
    proof cases
      case 1
      then obtain v where "c # cs = [] @ sub @ v" by (auto simp: HasPrefix_iff)
      then show ?thesis unfolding occurs_in_def by blast
    next
      case 2
      with Cons obtain u v where "cs = u @ sub @ v" by (auto simp: occurs_in_def)
      then have "c # cs = (c # u) @ sub @ v" by simp
      then show ?thesis unfolding occurs_in_def by blast
    qed
  next
    assume "occurs_in sub (c # cs)"
    then obtain u v where uv: "c # cs = u @ sub @ v" by (auto simp: occurs_in_def)
    show "Contains (c # cs) sub"
    proof (cases u)
      case Nil
      with uv have "HasPrefix (c # cs) sub" by (auto simp: HasPrefix_iff)
      then show ?thesis by simp
    next
      case (Cons a u')
      with uv have "cs = u' @ sub @ v" by simp
      then have "occurs_in sub cs" unfolding occurs_in_def by blast
      with Cons.IH show ?thesis by simp
    qed
  qed
qed

lemma ReplaceAll_absent: "\<not> Contains s old \<Longrightarrow> ReplaceAll s old new = s"
  by (induction s) auto

text \<open>Rules that evaluate the string functions on literals.\<close>

lemma char_of_eq_char_iff: "(char_of (n::nat) = c) = (n mod 256 = of_char c)"
  by (metis of_char_of char_of_char)

lemmas go_eval = HasPrefix_def HasSuffix_def TrimSuffix_def Base_def ToSlash_def ToUpper_def
  ToLower_def upper_code_def lower_code_def char_of_eq_char_iff isSpace_def TrimSpace_def
  httpMethods_def

lemma Split_nonempty: "Split s c \<noteq> []"
  by (induction s) (auto split: list.splits)

lemma Join_Cons: "ys \<noteq> [] \<Longrightarrow> Join (x # ys) sep = x @ sep @ Join ys sep"
  by (cases ys) auto

lemma Join_Split: "Join (Split s c) [c] = s"
proof (induction s)
  case Nil
  then show ?case by simp
next
  case (Cons a s)
  show ?case
  proof (cases "a = c")
    case True
    then show ?thesis using Cons by (simp add: Join_Cons Split_nonempty)
  next
    case False
    obtain p ps where ps: "Split s c = p # ps" using Split_nonempty[of s c] by (cases "Split s c") auto
    show ?thesis
    proof (cases ps)
      case Nil
      with ps Cons False show ?thesis by simp
    next
      case (Cons q qs)
      with ps Cons.IH False show ?thesis by (simp)
    qed
  qed
qed

lemma Join_segment:
  "Suc i < length segs \<Longrightarrow> \<exists>u v. Join segs sep = u @ (segs ! i) @ sep @ v"
proof (induction segs arbitrary: i)
  case Nil
  then show ?case by simp
next
  case (Cons x xs)
  then have ne: "xs \<noteq> []" by auto
  show ?case
  proof (cases i)
    case 0
    have "Join (x # xs) sep = [] @ x @ sep @ Join xs sep" using ne by (simp add: Join_Cons)
    with 0 show ?thesis by (metis nth_Cons_0)
  next
    case (Suc k)
    with Cons.prems have "Suc k < length xs" by simp
    from Cons.IH[OF this] obtain u v where "Join xs sep = u @ (xs ! k) @ sep @ v" by blast
    then have "Join (x # xs) sep = (x @ sep @ u) @ (xs ! k) @ sep @ v" using ne by (simp add: Join_Cons)
    with Suc show ?thesis by (metis nth_Cons_Suc)
  qed
qed

lemma segment_then_slash:
  assumes "Suc i < length (Split p (CHR ''/''))"
  shows "occurs_in (Split p (CHR ''/'') ! i @ ''/'') p"
proof -
  from Join_segment[OF assms, of "''/''"] obtain u v where
    "Join (Split p (CHR ''/'')) ''/'' = u @ (Split p (CHR ''/'') ! i) @ ''/'' @ v" by blast
  then have "p = u @ (Split p (CHR ''/'') ! i @ ''/'') @ v" by (simp add: Join_Split)
  then show ?thesis unfolding occurs_in_def by blast
qed

lemma tableAfterMarker_first:
  "Suc i < length segs \<Longrightarrow> segs ! i = ''Tables'' \<Longrightarrow> (\<forall>j<i. segs ! j \<noteq> ''Tables'')
     \<Longrightarrow> tableAfterMarker segs = segs ! Suc i"
proof (induction segs arbitrary: i rule: tableAfterMarker.induct)
  case 1
  then show ?case by simp
next
  case (2 part)
  then show ?case by simp
next
  case (3 part nxt parts)
  show ?case
  proof (cases i)
    case 0
    with 3 show ?thesis by simp
  next
    case (Suc k)
    with "3.prems" have np: "part \<noteq> ''Tables''" by auto
    from Suc "3.prems" have a: "Suc k < length (nxt # parts)" by simp
    from Suc "3.prems" have b: "(nxt # parts) ! k = ''Tables''" by simp
    from Suc "3.prems" have c: "\<forall>j<k. (nxt # parts) ! j \<noteq> ''Tables''" by auto
    from "3.IH"[OF np a b c] np Suc show ?thesis by simp
  qed
qed

lemma tableAfterMarker_none:
  "(\<forall>i. Suc i < length segs \<longrightarrow> segs ! i \<noteq> ''Tables'') \<Longrightarrow> tableAfterMarker segs = []"
proof (induction segs rule: tableAfterMarker.induct)
  case 1
  then show ?case by simp
next
  case (2 part)
  then show ?case by simp
next
  case (3 part nxt parts)
  from "3.prems" have np: "part \<noteq> ''Tables''" by force
  have "\<forall>i. Suc i < length (nxt # parts) \<longrightarrow> (nxt # parts) ! i \<noteq> ''Tables''"
  proof (intro allI impI)
    fix i assume "Suc i < length (nxt # parts)"
    then have "Suc (Suc i) < length (part # nxt # parts)" by simp
    with "3.prems" have "(part # nxt # parts) ! Suc i \<noteq> ''Tables''" by blast
    then show "(nxt # parts) ! i \<noteq> ''Tables''" by simp
  qed
  with "3.IH"[OF np] np show ?case by simp
qed




lemma upper_code_less: "n < 256 \<Longrightarrow> upper_code n < 256"
  by (auto simp: upper_code_def)

lemma upper_code_eq_iff:
  "(upper_code x = upper_code y) =
   (x = y \<or> (65 \<le> x \<and> x \<le> 90 \<and> y = x + 32) \<or> (65 \<le> y \<and> y \<le> 90 \<and> x = y + 32))"
  unfolding upper_code_def by (simp split: if_splits) arith

lemma upper_char_eq_iff:
  "(char_of (upper_code (of_char a)) = (char_of (upper_code (of_char b)) :: char)) = same_letter a b"
proof -
  have a: "(of_char a :: nat) < 256" and b: "(of_char b :: nat) < 256" by simp_all
  have "(char_of (upper_code (of_char a)) = (char_of (upper_code (of_char b)) :: char))
        = (upper_code (of_char a) mod 256 = upper_code (of_char b) mod 256)"
    by (simp add: char_of_eq_iff take_bit_eq_mod)
  also have "\<dots> = (upper_code (of_char a) = upper_code (of_char b))"
    using upper_code_less[OF a] upper_code_less[OF b] by simp
  also have "\<dots> = same_letter a b"
    unfolding same_letter_def Let_def by (rule upper_code_eq_iff)
  finally show ?thesis .
qed

lemma map_eq_list_all2: "(map f xs = map f ys) = list_all2 (\<lambda>a b. f a = f b) xs ys"
proof (induction xs arbitrary: ys)
  case Nil
  then show ?case by simp
next
  case (Cons x xs)
  then show ?case by (cases ys) auto
qed

lemma ToUpper_eq_iff: "(ToUpper s = ToUpper t) = equal_fold s t"
  unfolding ToUpper_def equal_fold_def map_eq_list_all2 upper_char_eq_iff ..

lemma HasPrefix_ToUpper:
  assumes "ToUpper keyword = keyword"
  shows "HasPrefix (ToUpper s) keyword = begins_fold keyword s"
proof
  assume "HasPrefix (ToUpper s) keyword"
  then have "ToUpper (take (length keyword) s) = ToUpper keyword"
    using assms by (simp add: HasPrefix_def ToUpper_def take_map)
  then have "equal_fold (take (length keyword) s) keyword" by (simp add: ToUpper_eq_iff)
  moreover have "s = take (length keyword) s @ drop (length keyword) s" by simp
  ultimately show "begins_fold keyword s" unfolding begins_fold_def by blast
next
  assume "begins_fold keyword s"
  then obtain p r where s: "s = p @ r" and e: "equal_fold p keyword"
    unfolding begins_fold_def by blast
  from e have len: "length p = length keyword"
    by (simp add: equal_fold_def list_all2_lengthD)
  from e have "ToUpper p = keyword" using assms by (simp add: ToUpper_eq_iff [symmetric])
  with s len show "HasPrefix (ToUpper s) keyword"
    by (simp add: HasPrefix_def ToUpper_def)
qed

lemma TrimSpace_idem: "TrimSpace (TrimSpace s) = TrimSpace s"
proof -
  define t where "t = dropWhile isSpace s"
  define u where "u = dropWhile isSpace (rev t)"
  have u_head: "dropWhile isSpace u = u"
    unfolding u_def by simp
  have ru: "dropWhile isSpace (rev u) = rev u"
  proof (cases "u = []")
    case True
    then show ?thesis by simp
  next
    case False
    then have "rev t \<noteq> []" unfolding u_def by auto
    then have tne: "t \<noteq> []" by simp
    then have nh: "\<not> isSpace (hd t)" unfolding t_def by (metis hd_dropWhile)
    obtain k where k: "u = drop k (rev t)" unfolding u_def
      by (metis dropWhile_eq_drop)
    from False k have "k < length t" by auto
    then have "rev u = take (length t - k) t" using k by (simp add: rev_drop)
    moreover from \<open>k < length t\<close> have "0 < length t - k" by simp
    ultimately have "hd (rev u) = hd t" by (metis hd_take neq0_conv)
    with nh False show ?thesis by (cases "rev u") auto
  qed
  show ?thesis
    unfolding TrimSpace_def t_def[symmetric] u_def[symmetric] by (simp add: ru u_head)
qed

section \<open>The template processor leaves a text without placeholders alone\<close>

text \<open>
  C8. A SQL text in which none of \<^verbatim>\<open>{{table}}\<close>, \<^verbatim>\<open>{{columns}}\<close>, \<^verbatim>\<open>{{values}}\<close>,
  \<^verbatim>\<open>{{updates}}\<close> occurs is returned unchanged by \<^verbatim>\<open>ProcessSQLTemplate\<close>, whatever the
  table name and the parameters; a token such as \<^verbatim>\<open>{{name}}\<close> in it therefore stays.
\<close>

theorem ProcessSQLTemplate_no_placeholder:
  assumes "\<not> occurs_in ''{{table}}'' sql"
    and "\<not> occurs_in ''{{columns}}'' sql"
    and "\<not> occurs_in ''{{values}}'' sql"
    and "\<not> occurs_in ''{{updates}}'' sql"
  shows "ProcessSQLTemplate sql tableName ps = sql"
proof -
  from assms(1) have "ReplaceAll sql ''{{table}}'' tableName = sql"
    by (simp add: ReplaceAll_absent Contains_iff)
  with assms(2-4) show ?thesis
    unfolding ProcessSQLTemplate_def by (simp add: Contains_iff)
qed

theorem ProcessSQLTemplate_no_placeholder_witness:
  "\<not> occurs_in ''{{table}}'' ''SELECT * FROM t WHERE n = {{name}}''
   \<and> \<not> occurs_in ''{{columns}}'' ''SELECT * FROM t WHERE n = {{name}}''
   \<and> \<not> occurs_in ''{{values}}'' ''SELECT * FROM t WHERE n = {{name}}''
   \<and> \<not> occurs_in ''{{updates}}'' ''SELECT * FROM t WHERE n = {{name}}''
   \<and> ProcessSQLTemplate ''SELECT * FROM t WHERE n = {{name}}'' ''users''
        [(''name'', JString ''Ann''), (''columns'', JString ''id'')]
      = ''SELECT * FROM t WHERE n = {{name}}''"
proof -
  have a: "\<not> occurs_in ''{{table}}'' ''SELECT * FROM t WHERE n = {{name}}''"
    unfolding Contains_iff [symmetric] by (simp add: HasPrefix_def)
  have b: "\<not> occurs_in ''{{columns}}'' ''SELECT * FROM t WHERE n = {{name}}''"
    unfolding Contains_iff [symmetric] by (simp add: HasPrefix_def)
  have c: "\<not> occurs_in ''{{values}}'' ''SELECT * FROM t WHERE n = {{name}}''"
    unfolding Contains_iff [symmetric] by (simp add: HasPrefix_def)
  have d: "\<not> occurs_in ''{{updates}}'' ''SELECT * FROM t WHERE n = {{name}}''"
    unfolding Contains_iff [symmetric] by (simp add: HasPrefix_def)
  from a b c d ProcessSQLTemplate_no_placeholder [OF a b c d] show ?thesis by blast
qed

section \<open>Routes of table files and of the other files\<close>




section \<open>Table scope of a compiled route\<close>

text \<open>
  C7. A file under a directory whose name ends in \<^verbatim>\<open>Tables\<close> has no path component
  equal to \<^verbatim>\<open>Tables\<close>, so its route is to be universal with no table name. The table
  name is empty, but \<^verbatim>\<open>AssembleEndpoint\<close> finds the text \<^verbatim>\<open>Tables/\<close> in the path and
  sets the universal flag to false.
\<close>

theorem AssembleEndpoint_flag_under_OldTables:
  "Split ''sql/OldTables/list.sql'' (CHR ''/'') = [''sql'', ''OldTables'', ''list.sql'']
   \<and> TableName (AssembleEndpoint ''sql/OldTables/list.sql'' ''/api/v1'') = []
   \<and> IsUniversal (AssembleEndpoint ''sql/OldTables/list.sql'' ''/api/v1'') = False"
  by (simp add: AssembleEndpoint_def ExtractTableName_def ToSlash_def HasPrefix_def)

text \<open>
  What does hold of the table scope. When a component equal to \<^verbatim>\<open>Tables\<close> is followed
  by another, the table name is the component after the first \<^verbatim>\<open>Tables\<close> component and
  the descriptor is not universal.
\<close>

lemma marked_path_table_scope:
  assumes "Suc i < length (Split p (CHR ''/''))"
    and "Split p (CHR ''/'') ! i = ''Tables''"
    and "\<forall>j<i. Split p (CHR ''/'') ! j \<noteq> ''Tables''"
  shows "TableName (AssembleEndpoint p baseURL) = Split p (CHR ''/'') ! Suc i"
    and "\<not> IsUniversal (AssembleEndpoint p baseURL)"
proof -
  from assms show "TableName (AssembleEndpoint p baseURL) = Split p (CHR ''/'') ! Suc i"
    by (simp add: AssembleEndpoint_def ExtractTableName_def ToSlash_def tableAfterMarker_first)
  from assms(1,2) segment_then_slash [of i p] have "occurs_in ''Tables/'' p" by simp
  then show "\<not> IsUniversal (AssembleEndpoint p baseURL)"
    by (simp add: AssembleEndpoint_def Contains_iff)
qed

text \<open>
  When no \<^verbatim>\<open>Tables\<close> component is followed by another, the table name is empty; and
  when the text \<^verbatim>\<open>Tables/\<close> does not occur in the path at all, the descriptor is
  universal as well. The paths between the two, such as the one above, are where the
  flag is wrong.
\<close>

lemma unmarked_path_no_table:
  "(\<forall>i. Suc i < length (Split p (CHR ''/'')) \<longrightarrow> Split p (CHR ''/'') ! i \<noteq> ''Tables'')
     \<Longrightarrow> TableName (AssembleEndpoint p baseURL) = []"
  by (simp add: AssembleEndpoint_def ExtractTableName_def ToSlash_def tableAfterMarker_none)

lemma path_without_marker_text_universal:
  assumes "\<not> occurs_in ''Tables/'' p"
  shows "IsUniversal (AssembleEndpoint p baseURL)"
    and "TableName (AssembleEndpoint p baseURL) = []"
proof -
  from assms show "IsUniversal (AssembleEndpoint p baseURL)"
    by (simp add: AssembleEndpoint_def Contains_iff)
  have "\<forall>i. Suc i < length (Split p (CHR ''/'')) \<longrightarrow> Split p (CHR ''/'') ! i \<noteq> ''Tables''"
  proof (intro allI impI notI)
    fix i assume "Suc i < length (Split p (CHR ''/''))" "Split p (CHR ''/'') ! i = ''Tables''"
    with segment_then_slash [of i p] have "occurs_in ''Tables/'' p" by simp
    with assms show False by simp
  qed
  then show "TableName (AssembleEndpoint p baseURL) = []"
    by (rule unmarked_path_no_table)
qed

lemma table_scope_examples:
  "TableName (AssembleEndpoint ''db/Tables/users/GET/select.sql'' ''/api/v1'') = ''users''
   \<and> \<not> IsUniversal (AssembleEndpoint ''db/Tables/users/GET/select.sql'' ''/api/v1'')
   \<and> TableName (AssembleEndpoint ''db/GET/health_check.sql'' ''/api/v1'') = []
   \<and> IsUniversal (AssembleEndpoint ''db/GET/health_check.sql'' ''/api/v1'')"
  by (simp add: AssembleEndpoint_def ExtractTableName_def ToSlash_def HasPrefix_def)

section \<open>The universal flag and the table name can disagree\<close>

text \<open>
  C4. \<^verbatim>\<open>AssembleEndpoint\<close> takes the table name from the components of the path and the
  universal flag from a substring test. For a file under a directory \<^verbatim>\<open>myTables\<close> the
  flag says table-scoped and the table name is empty.
\<close>

theorem AssembleEndpoint_flag_without_table:
  "IsUniversal (AssembleEndpoint ''db/myTables/report.sql'' ''/api/v1'') = False
   \<and> TableName (AssembleEndpoint ''db/myTables/report.sql'' ''/api/v1'') = []
   \<and> Path (AssembleEndpoint ''db/myTables/report.sql'' ''/api/v1'') = ''/api/v1/report''"
  by (simp add: AssembleEndpoint_def ExtractTableName_def RouteFromPath_def ToSlash_def
        Base_def TrimSuffix_def HasSuffix_def HasPrefix_def)

text \<open>The other direction holds: a universal descriptor has no table name.\<close>

lemma universal_has_no_table:
  "IsUniversal (AssembleEndpoint p baseURL) \<Longrightarrow> TableName (AssembleEndpoint p baseURL) = []"
proof -
  assume u: "IsUniversal (AssembleEndpoint p baseURL)"
  have "\<forall>i. Suc i < length (Split p (CHR ''/'')) \<longrightarrow> Split p (CHR ''/'') ! i \<noteq> ''Tables''"
  proof (intro allI impI notI)
    fix i assume "Suc i < length (Split p (CHR ''/''))" "Split p (CHR ''/'') ! i = ''Tables''"
    with segment_then_slash[of i p] have "occurs_in ''Tables/'' p" by simp
    with u show False by (simp add: AssembleEndpoint_def Contains_iff)
  qed
  then show ?thesis
    by (simp add: AssembleEndpoint_def ExtractTableName_def ToSlash_def tableAfterMarker_none)
qed

section \<open>Rewriting CREATE TABLE twice\<close>

text \<open>
  C3. The rewriting of \<^verbatim>\<open>ApplySchema\<close> does not look for an \<^verbatim>\<open>IF NOT EXISTS\<close> that is
  already there: applied to its own output it inserts the words again.
\<close>

theorem fixCreateTable_applied_twice:
  "fixCreateTable ''CREATE TABLE t (id INTEGER)'' = ''CREATE TABLE IF NOT EXISTS t (id INTEGER)''
   \<and> fixCreateTable (fixCreateTable ''CREATE TABLE t (id INTEGER)'')
       = ''CREATE TABLE IF NOT EXISTS IF NOT EXISTS t (id INTEGER)''
   \<and> fixCreateTable (cleanSQLSchema ''CREATE TABLE IF NOT EXISTS t (id INTEGER)'')
       = ''CREATE TABLE IF NOT EXISTS IF NOT EXISTS t (id INTEGER)''"
  by (simp add: matchCreateTable_def matchSpaces_def reSpace_def upper_code_def
        cleanSQLSchema_def cleanLine_def TrimSpace_def isSpace_def HasPrefix_def
        List.map_filter_def)

section \<open>The method inferred from the file name\<close>

lemma ToUpper_httpMethods: "m \<in> set httpMethods \<Longrightarrow> ToUpper m = m"
proof -
  have "ToUpper ''GET'' = ''GET''" "ToUpper ''POST'' = ''POST''"
       "ToUpper ''PUT'' = ''PUT''" "ToUpper ''DELETE'' = ''DELETE''"
    by (simp_all add: go_eval)
  then show "m \<in> set httpMethods \<Longrightarrow> ToUpper m = m"
    by (auto simp: httpMethods_def)
qed

lemma methodDirectory_none:
  "(\<forall>seg\<in>set segs. \<forall>m\<in>set httpMethods. \<not> equal_fold seg m) \<Longrightarrow> methodDirectory segs = None"
proof (induction segs)
  case Nil
  then show ?case by simp
next
  case (Cons part parts)
  have "find (\<lambda>method. ToUpper part = method) httpMethods = None"
  proof -
    have "\<not> (\<exists>m. m \<in> set httpMethods \<and> ToUpper part = m)"
    proof
      assume "\<exists>m. m \<in> set httpMethods \<and> ToUpper part = m"
      then obtain m where m: "m \<in> set httpMethods" "ToUpper part = m" by blast
      then have "ToUpper part = ToUpper m" by (simp add: ToUpper_httpMethods)
      then have "equal_fold part m" by (simp add: ToUpper_eq_iff)
      with Cons.prems m(1) show False by simp
    qed
    then show ?thesis by (simp add: find_None_iff)
  qed
  with Cons show ?case by simp
qed

text \<open>
  C5, as the code has it. When no component of the path is, ignoring case, one of
  \<^verbatim>\<open>GET\<close>, \<^verbatim>\<open>POST\<close>, \<^verbatim>\<open>PUT\<close>, \<^verbatim>\<open>DELETE\<close>, the method comes from the stem, the base
  name in lower case without a final \<^verbatim>\<open>.sql\<close>, by the first of these that applies:
  \<^verbatim>\<open>select\<close>, \<^verbatim>\<open>get\<close> or \<^verbatim>\<open>find\<close> occurs in it, then GET; \<^verbatim>\<open>insert\<close>, \<^verbatim>\<open>create\<close> or
  \<^verbatim>\<open>add\<close>, then POST; \<^verbatim>\<open>update\<close>, \<^verbatim>\<open>put\<close> or \<^verbatim>\<open>modify\<close>, then PUT; \<^verbatim>\<open>delete\<close> or
  \<^verbatim>\<open>remove\<close>, then DELETE; none, then GET.
\<close>

theorem MethodFromPath_inferred:
  assumes "ascii p"
    and "\<forall>seg\<in>set (Split p (CHR ''/'')). \<forall>m\<in>set httpMethods. \<not> equal_fold seg m"
  shows "MethodFromPath p =
     (let stem = TrimSuffix (ToLower (Base p)) ''.sql''
      in if occurs_in ''select'' stem \<or> occurs_in ''get'' stem \<or> occurs_in ''find'' stem
           then ''GET''
         else if occurs_in ''insert'' stem \<or> occurs_in ''create'' stem \<or> occurs_in ''add'' stem
           then ''POST''
         else if occurs_in ''update'' stem \<or> occurs_in ''put'' stem \<or> occurs_in ''modify'' stem
           then ''PUT''
         else if occurs_in ''delete'' stem \<or> occurs_in ''remove'' stem
           then ''DELETE''
         else ''GET'')"
proof -
  from assms(2) have "methodDirectory (Split p (CHR ''/'')) = None"
    by (rule methodDirectory_none)
  then show ?thesis
    unfolding MethodFromPath_def ToSlash_def Let_def by (simp add: Contains_iff)
qed

theorem MethodFromPath_inferred_witness:
  "ascii ''sql/reports/Create_Report.sql''
   \<and> MethodFromPath ''sql/reports/Create_Report.sql'' = ''POST''"
proof -
  have a: "ascii ''sql/reports/Create_Report.sql''"
    by (simp add: ascii_def)
  have s: "Split ''sql/reports/Create_Report.sql'' (CHR ''/'')
           = [''sql'', ''reports'', ''Create_Report.sql'']" by simp
  have h: "\<forall>seg\<in>set (Split ''sql/reports/Create_Report.sql'' (CHR ''/'')).
             \<forall>m\<in>set httpMethods. \<not> equal_fold seg m"
    unfolding s by (simp add: httpMethods_def equal_fold_def same_letter_def)
  have stem: "TrimSuffix (ToLower (Base ''sql/reports/Create_Report.sql'')) ''.sql''
              = ''create_report''"
    by (simp add: go_eval)
  have c: "Contains ''create_report'' ''select'' = False"
          "Contains ''create_report'' ''get'' = False"
          "Contains ''create_report'' ''find'' = False"
          "Contains ''create_report'' ''create'' = True"
    by (simp_all add: go_eval)
  from MethodFromPath_inferred [OF a h] have
    "MethodFromPath ''sql/reports/Create_Report.sql'' = ''POST''"
    unfolding stem Let_def Contains_iff [symmetric] c by simp
  with a show ?thesis by blast
qed

text \<open>
  The claim as written fails on the words that \<^verbatim>\<open>MethodFromPath\<close> does not know:
  \<^verbatim>\<open>new\<close>, \<^verbatim>\<open>upsert\<close>, \<^verbatim>\<open>edit\<close>, \<^verbatim>\<open>drop\<close> and \<^verbatim>\<open>destroy\<close> fall to the default, and
  \<^verbatim>\<open>list\<close> does not keep a later word from deciding.
\<close>

theorem MethodFromPath_unknown_words:
  "Split ''db/new_user.sql'' (CHR ''/'') = [''db'', ''new_user.sql'']
   \<and> Contains (TrimSuffix (ToLower (Base ''db/new_user.sql'')) ''.sql'') ''new''
   \<and> MethodFromPath ''db/new_user.sql'' = ''GET''
   \<and> MethodFromPath ''db/upsert_user.sql'' = ''GET''
   \<and> MethodFromPath ''db/edit_row.sql'' = ''GET''
   \<and> MethodFromPath ''db/drop_all.sql'' = ''GET''
   \<and> MethodFromPath ''db/destroy_all.sql'' = ''GET''
   \<and> MethodFromPath ''db/list_added.sql'' = ''POST''"
  by (simp add: MethodFromPath_def go_eval)

section \<open>Queries and other statements\<close>

lemma keywords_upper:
  "ToUpper ''SELECT'' = ''SELECT''" "ToUpper ''WITH'' = ''WITH''"
  "ToUpper ''EXPLAIN'' = ''EXPLAIN''" "ToUpper ''PRAGMA'' = ''PRAGMA''"
  by (simp_all add: go_eval)

text \<open>
  C2, as the code has it. Take a statement whose trimmed text is not empty, on a store
  that is not closed. \<^verbatim>\<open>ExecSQL\<close> of \<^verbatim>\<open>gosql/database/database.go\<close> runs it as a query
  exactly when the trimmed text begins, ignoring case, with \<^verbatim>\<open>SELECT\<close>, and as a
  mutation otherwise. \<^verbatim>\<open>ExecSQL\<close> of the earlier wrapper runs it as a query exactly when
  the trimmed text begins, ignoring case, with \<^verbatim>\<open>SELECT\<close>, \<^verbatim>\<open>WITH\<close>, \<^verbatim>\<open>EXPLAIN\<close> or
  \<^verbatim>\<open>PRAGMA\<close>, and as a mutation otherwise.
\<close>

theorem ExecSQL_classification:
  assumes "ascii query" and "\<not> closed d" and "TrimSpace query \<noteq> []"
  shows "ExecSQL drv d query args =
           (if begins_fold ''SELECT'' (TrimSpace query)
            then ExecSQL_query drv d (TrimSpace query) args
            else ExecSQL_exec drv d (TrimSpace query) args)
         \<and> ExecSQL_deprecated drv d query args =
           (if begins_fold ''SELECT'' (TrimSpace query) \<or> begins_fold ''WITH'' (TrimSpace query)
               \<or> begins_fold ''EXPLAIN'' (TrimSpace query)
               \<or> begins_fold ''PRAGMA'' (TrimSpace query)
            then executeQuery drv d (TrimSpace query) args
            else executeExec drv d (TrimSpace query) args)"
  using assms(2,3)
  unfolding ExecSQL_def ExecSQL_deprecated_def Let_def TrimSpace_idem
  by (simp add: HasPrefix_ToUpper keywords_upper)

theorem ExecSQL_classification_witness:
  "ascii ''  with t as (select 1) select * from t ''
   \<and> \<not> closed openStore
   \<and> TrimSpace ''  with t as (select 1) select * from t '' \<noteq> []
   \<and> ExecSQL recorder openStore ''  with t as (select 1) select * from t '' []
       = (Inr (AffectedAndLastId 1 1),
          openStore\<lparr>DB := Some [ExecCall ''with t as (select 1) select * from t'' []]\<rparr>)
   \<and> ExecSQL_deprecated recorder openStore ''  with t as (select 1) select * from t '' []
       = (Inr (QueryResult [''id''] [[(''id'', ColInt 1)]] 1),
          openStore\<lparr>DB := Some [QueryCall ''with t as (select 1) select * from t'' []]\<rparr>)"
proof -
  have a: "ascii ''  with t as (select 1) select * from t ''"
    by (simp add: ascii_def)
  have b: "\<not> closed openStore"
    by (simp add: openStore_def)
  have t: "TrimSpace ''  with t as (select 1) select * from t ''
           = ''with t as (select 1) select * from t''"
    by (simp add: go_eval)
  then have c: "TrimSpace ''  with t as (select 1) select * from t '' \<noteq> []"
    by simp
  have k: "begins_fold ''SELECT'' ''with t as (select 1) select * from t'' = False"
          "begins_fold ''WITH'' ''with t as (select 1) select * from t'' = True"
    unfolding HasPrefix_ToUpper [OF keywords_upper(1), symmetric]
              HasPrefix_ToUpper [OF keywords_upper(2), symmetric]
    by (simp_all add: go_eval)
  from ExecSQL_classification [OF a b c, of recorder "[]"]
  have "ExecSQL recorder openStore ''  with t as (select 1) select * from t '' []
       = (Inr (AffectedAndLastId 1 1),
          openStore\<lparr>DB := Some [ExecCall ''with t as (select 1) select * from t'' []]\<rparr>)
   \<and> ExecSQL_deprecated recorder openStore ''  with t as (select 1) select * from t '' []
       = (Inr (QueryResult [''id''] [[(''id'', ColInt 1)]] 1),
          openStore\<lparr>DB := Some [QueryCall ''with t as (select 1) select * from t'' []]\<rparr>)"
    unfolding t k
    by (simp add: ExecSQL_exec_def executeQuery_def recorder_def openStore_def bytesToString_def)
  with a b c show ?thesis by blast
qed

text \<open>
  The claim as written fails on the wrapper of \<^verbatim>\<open>gosql/database/database.go\<close>: a
  \<^verbatim>\<open>PRAGMA\<close>, a \<^verbatim>\<open>WITH\<close> and an \<^verbatim>\<open>EXPLAIN\<close> statement go to \<^verbatim>\<open>Exec\<close> and come back as
  the pair of affected rows and last row id. And in either wrapper a blank statement is
  neither: it is refused.
\<close>

theorem ExecSQL_pragma_is_executed:
  "ExecSQL recorder openStore ''PRAGMA table_info(users)'' []
     = (Inr (AffectedAndLastId 1 1),
        openStore\<lparr>DB := Some [ExecCall ''PRAGMA table_info(users)'' []]\<rparr>)
   \<and> ExecSQL recorder openStore ''WITH t AS (SELECT 1) SELECT * FROM t'' []
     = (Inr (AffectedAndLastId 1 1),
        openStore\<lparr>DB := Some [ExecCall ''WITH t AS (SELECT 1) SELECT * FROM t'' []]\<rparr>)
   \<and> ExecSQL recorder openStore ''EXPLAIN SELECT 1'' []
     = (Inr (AffectedAndLastId 1 1),
        openStore\<lparr>DB := Some [ExecCall ''EXPLAIN SELECT 1'' []]\<rparr>)
   \<and> ExecSQL_deprecated recorder openStore ''   '' [] = (Inl (Err ''empty query''), openStore)"
  by (simp add: ExecSQL_def ExecSQL_deprecated_def ExecSQL_exec_def recorder_def openStore_def
        go_eval)

section \<open>A closed store stays closed\<close>

lemma closed_storeStep: "closed d \<Longrightarrow> storeStep drv d op = d"
  by (cases op) (simp_all add: ExecSQL_def ApplySchema_def Close_def)

lemma closed_runStore: "closed d \<Longrightarrow> runStore drv d ops = d"
  unfolding runStore_def by (induction ops) (simp_all add: closed_storeStep)

lemma closed_after_Close: "closed (snd (Close drv d))"
  by (simp add: Close_def Let_def split: option.splits prod.splits)

lemma execStatements_closed: "closed (snd (execStatements drv d statements)) = closed d"
  by (induction drv d statements rule: execStatements.induct)
     (auto simp: Let_def split: option.splits sum.splits prod.splits)

lemma NewDatabase_open: "NewDatabase mkdirFor opn drv cfg = Inr db \<Longrightarrow> \<not> closed db"
  unfolding NewDatabase_def Let_def
  by (auto simp: ApplySchema_def Let_def
        split: option.splits sum.splits prod.splits if_splits failure.splits
        dest: arg_cong [where f = "\<lambda>r. closed (snd r)"] simp: execStatements_closed)

lemmas schema_eval = ApplySchema_def cleanSQLSchema_def cleanLine_def List.map_filter_def
  matchCreateTable_def matchSpaces_def reSpace_def

text \<open>
  C9. A store that \<^verbatim>\<open>NewDatabase\<close> returns is not closed. Take the store in any state,
  call \<^verbatim>\<open>Close\<close>, and then any sequence of the methods of \<^verbatim>\<open>*Database\<close>: the store is
  closed afterwards, \<^verbatim>\<open>ExecSQL\<close> and \<^verbatim>\<open>ApplySchema\<close> return the error
  \<^verbatim>\<open>database is closed\<close> and leave the store as it is, \<^verbatim>\<open>IsHealthy\<close> is false and
  \<^verbatim>\<open>GetConnection\<close> gives nil.
\<close>

theorem closed_is_terminal:
  "(NewDatabase mkdirFor opn drv cfg = Inr db \<longrightarrow> \<not> closed db)
   \<and> closed (runStore drv (snd (Close drv d)) ops)
   \<and> ExecSQL drv (runStore drv (snd (Close drv d)) ops) query args
       = (Inl (Err ''database is closed''), runStore drv (snd (Close drv d)) ops)
   \<and> ApplySchema drv (runStore drv (snd (Close drv d)) ops) schema
       = (Some (Err ''database is closed''), runStore drv (snd (Close drv d)) ops)
   \<and> IsHealthy drv (runStore drv (snd (Close drv d)) ops) = False
   \<and> GetConnection (runStore drv (snd (Close drv d)) ops) = None"
proof -
  have c: "closed (runStore drv (snd (Close drv d)) ops)"
    by (simp add: closed_runStore closed_after_Close)
  then show ?thesis
    by (simp add: ExecSQL_def ApplySchema_def IsHealthy_def GetConnection_def NewDatabase_open)
qed

theorem closed_is_terminal_witness:
  "NewDatabase (\<lambda>path. None) (\<lambda>dsn. Inr []) recorder
       \<lparr> CfgPath = [], CreateIfNotExists = True, Schema = ''CREATE TABLE t (id INTEGER);'' \<rparr>
     = Inr \<lparr> DB = Some [ExecCall ''PRAGMA foreign_keys = ON'' [],
                         ExecCall ''CREATE TABLE IF NOT EXISTS t (id INTEGER)'' []],
              DbPath = ''gosql_dir/gosql.db'', closed = False \<rparr>
   \<and> \<not> closed \<lparr> DB = Some [ExecCall ''PRAGMA foreign_keys = ON'' [],
                         ExecCall ''CREATE TABLE IF NOT EXISTS t (id INTEGER)'' []],
              DbPath = ''gosql_dir/gosql.db'', closed = False \<rparr>
   \<and> closed (runStore recorder (snd (Close recorder openStore))
             [DoExecSQL ''SELECT 1'' [], DoApplySchema ''CREATE TABLE t (id INTEGER)'', DoClose])
   \<and> fst (ExecSQL recorder
             (runStore recorder (snd (Close recorder openStore))
                [DoExecSQL ''SELECT 1'' [], DoApplySchema ''CREATE TABLE t (id INTEGER)'', DoClose])
             ''SELECT 1'' [])
       = Inl (Err ''database is closed'')
   \<and> snd (Close recorder openStore)
       = \<lparr> DB = Some [CloseCall], DbPath = ''gosql_dir/gosql.db'', closed = True \<rparr>"
proof -
  have n: "NewDatabase (\<lambda>path. None) (\<lambda>dsn. Inr []) recorder
       \<lparr> CfgPath = [], CreateIfNotExists = True, Schema = ''CREATE TABLE t (id INTEGER);'' \<rparr>
     = Inr \<lparr> DB = Some [ExecCall ''PRAGMA foreign_keys = ON'' [],
                         ExecCall ''CREATE TABLE IF NOT EXISTS t (id INTEGER)'' []],
              DbPath = ''gosql_dir/gosql.db'', closed = False \<rparr>"
    by (simp add: NewDatabase_def recorder_def schema_eval go_eval)
  have s: "snd (Close recorder openStore)
           = \<lparr> DB = Some [CloseCall], DbPath = ''gosql_dir/gosql.db'', closed = True \<rparr>"
    by (simp add: Close_def recorder_def openStore_def)
  note t = closed_is_terminal [of "\<lambda>path. None" "\<lambda>dsn. Inr []" recorder
      "\<lparr> CfgPath = [], CreateIfNotExists = True, Schema = ''CREATE TABLE t (id INTEGER);'' \<rparr>"
      "\<lparr> DB = Some [ExecCall ''PRAGMA foreign_keys = ON'' [],
                         ExecCall ''CREATE TABLE IF NOT EXISTS t (id INTEGER)'' []],
              DbPath = ''gosql_dir/gosql.db'', closed = False \<rparr>"
      openStore
      "[DoExecSQL ''SELECT 1'' [], DoApplySchema ''CREATE TABLE t (id INTEGER)'', DoClose]"
      "''SELECT 1''" "[]"]
  from t n have o: "\<not> closed \<lparr> DB = Some [ExecCall ''PRAGMA foreign_keys = ON'' [],
                         ExecCall ''CREATE TABLE IF NOT EXISTS t (id INTEGER)'' []],
              DbPath = ''gosql_dir/gosql.db'', closed = False \<rparr>"
    by blast
  from t have "closed (runStore recorder (snd (Close recorder openStore))
             [DoExecSQL ''SELECT 1'' [], DoApplySchema ''CREATE TABLE t (id INTEGER)'', DoClose])
   \<and> fst (ExecSQL recorder
             (runStore recorder (snd (Close recorder openStore))
                [DoExecSQL ''SELECT 1'' [], DoApplySchema ''CREATE TABLE t (id INTEGER)'', DoClose])
             ''SELECT 1'' [])
       = Inl (Err ''database is closed'')"
    by (metis fst_conv)
  with n o s show ?thesis by blast
qed

section \<open>Extracting the parameters of a request\<close>

lemma map_of_mapSet:
  "map_of (mapSet ps key v) k = (if k = key then Some v else map_of ps k)"
  unfolding mapSet_def by (induction ps) auto

lemma fold_query_lookup:
  "distinct (map fst query) \<Longrightarrow>
   map_of (fold (\<lambda>(key, values) ps.
                   case values of [] \<Rightarrow> ps | v # others \<Rightarrow> mapSet ps key (JString v))
                query acc) k
   = (case firstValue query k of Some v \<Rightarrow> Some v | None \<Rightarrow> map_of acc k)"
proof (induction query arbitrary: acc)
  case Nil
  then show ?case by (simp add: firstValue_def)
next
  case (Cons kv query)
  obtain key vals where kv: "kv = (key, vals)" by (cases kv)
  from Cons.prems kv have d: "distinct (map fst query)" and n: "key \<notin> fst ` set query" by auto
  from n have none: "map_of query key = None" by (simp add: map_of_eq_None_iff)
  show ?case
  proof (cases "k = key")
    case True
    with none show ?thesis
      unfolding kv True
      by (simp add: Cons.IH [OF d, unfolded True] firstValue_def map_of_mapSet
            split: list.splits)
  next
    case False
    then show ?thesis
      unfolding kv
      by (simp add: Cons.IH [OF d] firstValue_def map_of_mapSet
            split: list.splits option.splits)
  qed
qed

lemma fold_body_lookup:
  "distinct (map fst bodyParams) \<Longrightarrow>
   map_of (fold (\<lambda>(key, v) ps. mapSet ps key v) bodyParams acc) k
   = (case map_of bodyParams k of Some v \<Rightarrow> Some v | None \<Rightarrow> map_of acc k)"
proof (induction bodyParams arbitrary: acc)
  case Nil
  then show ?case by simp
next
  case (Cons kv bodyParams)
  obtain key v where kv: "kv = (key, v)" by (cases kv)
  from Cons.prems kv have d: "distinct (map fst bodyParams)" and n: "key \<notin> fst ` set bodyParams"
    by auto
  from n have none: "map_of bodyParams key = None" by (simp add: map_of_eq_None_iff)
  show ?case
  proof (cases "k = key")
    case True
    with none show ?thesis
      unfolding kv True by (simp add: Cons.IH [OF d, unfolded True] map_of_mapSet)
  next
    case False
    then show ?thesis
      unfolding kv by (simp add: Cons.IH [OF d] map_of_mapSet split: option.splits)
  qed
qed

lemma ExtractRequestParams_no_error: "snd (ExtractRequestParams env r) = None"
  by (simp add: ExtractRequestParams_def Let_def)

lemma CreateHandler_status:
  "CreateHandler env drv sqlPath db r = (Inr resp, db')
     \<Longrightarrow> statusCode resp = 200 \<or> statusCode resp = 500"
  unfolding CreateHandler_def
  using ExtractRequestParams_no_error [of env r]
  by (auto simp: WriteErrorResponse_def WriteJSONResponse_def
           split: if_splits prod.splits option.splits sum.splits failure.splits)

text \<open>
  C10. \<^verbatim>\<open>ExtractRequestParams\<close> returns a nil error for every request. When the body
  does not count (the method is neither POST nor PUT, or the decoder reports an error),
  the parameters are the first values of the query keys. When the body of a POST or PUT
  decodes to an object, its entries come on top. The handler's answer to a failed
  extraction, status 400, is never given.
\<close>

theorem ExtractRequestParams_total:
  "snd (ExtractRequestParams env r) = None
   \<and> (distinct (map fst (reqQuery r))
        \<and> ((reqMethod r \<noteq> ''POST'' \<and> reqMethod r \<noteq> ''PUT'')
             \<or> (\<exists>err. decodeJSON env (reqBody r) = Inl err))
      \<longrightarrow> map_of (fst (ExtractRequestParams env r)) key = firstValue (reqQuery r) key)
   \<and> (distinct (map fst (reqQuery r))
        \<and> (reqMethod r = ''POST'' \<or> reqMethod r = ''PUT'')
        \<and> decodeJSON env (reqBody r) = Inr bodyParams \<and> distinct (map fst bodyParams)
      \<longrightarrow> map_of (fst (ExtractRequestParams env r)) key
            = (case map_of bodyParams key of
                 Some v \<Rightarrow> Some v
               | None \<Rightarrow> firstValue (reqQuery r) key))
   \<and> (CreateHandler env drv sqlPath db r = (Inr resp, db') \<longrightarrow> statusCode resp \<noteq> 400)"
proof (intro conjI impI)
  show "snd (ExtractRequestParams env r) = None"
    by (rule ExtractRequestParams_no_error)
next
  assume a: "distinct (map fst (reqQuery r))
        \<and> ((reqMethod r \<noteq> ''POST'' \<and> reqMethod r \<noteq> ''PUT'')
             \<or> (\<exists>err. decodeJSON env (reqBody r) = Inl err))"
  then show "map_of (fst (ExtractRequestParams env r)) key = firstValue (reqQuery r) key"
    unfolding ExtractRequestParams_def Let_def
    by (auto simp: fold_query_lookup split: option.splits)
next
  assume a: "distinct (map fst (reqQuery r))
        \<and> (reqMethod r = ''POST'' \<or> reqMethod r = ''PUT'')
        \<and> decodeJSON env (reqBody r) = Inr bodyParams \<and> distinct (map fst bodyParams)"
  then show "map_of (fst (ExtractRequestParams env r)) key
            = (case map_of bodyParams key of
                 Some v \<Rightarrow> Some v
               | None \<Rightarrow> firstValue (reqQuery r) key)"
    unfolding ExtractRequestParams_def Let_def
    by (auto simp: fold_query_lookup fold_body_lookup split: option.splits)
next
  assume "CreateHandler env drv sqlPath db r = (Inr resp, db')"
  from CreateHandler_status [OF this] show "statusCode resp \<noteq> 400" by auto
qed

lemmas handler_eval = CreateHandler_def ExtractRequestParams_def ExecuteSQLFromPath_def
  ExtractTableName_def ProcessSQLTemplate_def stringParam_def mapLen_def mapSet_def
  ExecSQL_def ExecSQL_query_def ExecSQL_exec_def WriteJSONResponse_def WriteErrorResponse_def
  oneFile_def recorder_def openStore_def bytesToString_def

theorem ExtractRequestParams_total_witness:
  "snd (ExtractRequestParams
          (oneFile ''Tables/users/POST/insert.sql''
             ''INSERT INTO {{table}} (name) VALUES ({{values}})'')
          \<lparr> reqMethod = ''POST'', reqQuery = [(''name'', [''Bob'', ''Eve'']), (''flag'', [])],
            reqBody = ''{name'' \<rparr>) = None
   \<and> map_of (fst (ExtractRequestParams
          (oneFile ''Tables/users/POST/insert.sql''
             ''INSERT INTO {{table}} (name) VALUES ({{values}})'')
          \<lparr> reqMethod = ''POST'', reqQuery = [(''name'', [''Bob'', ''Eve'']), (''flag'', [])],
            reqBody = ''{name'' \<rparr>)) ''name'' = Some (JString ''Bob'')
   \<and> map_of (fst (ExtractRequestParams
          (oneFile ''Tables/users/POST/insert.sql''
             ''INSERT INTO {{table}} (name) VALUES ({{values}})'')
          \<lparr> reqMethod = ''POST'', reqQuery = [(''name'', [''Bob'', ''Eve'']), (''flag'', [])],
            reqBody = ''{\"name\": \"Ann\"}'' \<rparr>)) ''name'' = Some (JString ''Ann'')
   \<and> CreateHandler
         (oneFile ''Tables/users/POST/insert.sql''
            ''INSERT INTO {{table}} (name) VALUES ({{values}})'')
         recorder ''Tables/users/POST/insert.sql'' openStore
         \<lparr> reqMethod = ''POST'', reqQuery = [(''name'', [''Bob'', ''Eve'']), (''flag'', [])],
           reqBody = ''{name'' \<rparr>
       = (Inr \<lparr> statusCode = 200,
                 headers = corsHeaders @ [(''Content-Type'', ''application/json'')],
                 body = SuccessData (AffectedAndLastId 1 1) \<rparr>,
          openStore\<lparr>DB := Some [ExecCall ''INSERT INTO users (name) VALUES (?)''
                                     [JString ''Bob'']]\<rparr>)
   \<and> statusCode \<lparr> statusCode = 200,
                   headers = corsHeaders @ [(''Content-Type'', ''application/json'')],
                   body = SuccessData (AffectedAndLastId 1 1) \<rparr> \<noteq> 400"
proof -
  let ?E = "oneFile ''Tables/users/POST/insert.sql''
              ''INSERT INTO {{table}} (name) VALUES ({{values}})''"
  let ?Q = "[(''name'', [''Bob'', ''Eve'']), (''flag'', [])]"
  let ?R1 = "\<lparr> reqMethod = ''POST'', reqQuery = ?Q, reqBody = ''{name'' \<rparr>"
  let ?R2 = "\<lparr> reqMethod = ''POST'', reqQuery = ?Q, reqBody = ''{\"name\": \"Ann\"}'' \<rparr>"
  let ?resp = "\<lparr> statusCode = 200,
                 headers = corsHeaders @ [(''Content-Type'', ''application/json'')],
                 body = SuccessData (AffectedAndLastId 1 1) \<rparr>"
  let ?db = "openStore\<lparr>DB := Some [ExecCall ''INSERT INTO users (name) VALUES (?)''
                                     [JString ''Bob'']]\<rparr>"
  have d: "distinct (map fst ?Q)" by simp
  have e1: "decodeJSON ?E (reqBody ?R1) = Inl ''invalid character''"
    by (simp add: oneFile_def)
  have e2: "decodeJSON ?E (reqBody ?R2) = Inr [(''name'', JString ''Ann'')]"
    by (simp add: oneFile_def)
  have f: "firstValue ?Q ''name'' = Some (JString ''Bob'')"
    by (simp add: firstValue_def)
  have h: "CreateHandler ?E recorder ''Tables/users/POST/insert.sql'' openStore ?R1
           = (Inr ?resp, ?db)"
    by (simp add: handler_eval go_eval)
  note t1 = ExtractRequestParams_total
    [where env = ?E and r = ?R1 and key = "''name''" and drv = recorder
       and sqlPath = "''Tables/users/POST/insert.sql''" and db = openStore
       and resp = ?resp and db' = ?db and bodyParams = "[]"]
  note t2 = ExtractRequestParams_total
    [where env = ?E and r = ?R2 and key = "''name''"
       and bodyParams = "[(''name'', JString ''Ann'')]" and drv = recorder
       and sqlPath = "''Tables/users/POST/insert.sql''" and db = openStore
       and resp = ?resp and db' = ?db]
  from t1 have a: "snd (ExtractRequestParams ?E ?R1) = None" by blast
  from t1 d e1 f have b: "map_of (fst (ExtractRequestParams ?E ?R1)) ''name'' = Some (JString ''Bob'')"
    by simp
  from t2 d e2 f have c: "map_of (fst (ExtractRequestParams ?E ?R2)) ''name'' = Some (JString ''Ann'')"
    by simp
  from t1 h have g: "statusCode ?resp \<noteq> 400" by blast
  from a b c h g show ?thesis by blast
qed

section \<open>A request with another method than the route's\<close>

text \<open>
  C1. The file \<^verbatim>\<open>Tables/users/POST/insert.sql\<close> compiles to a POST route. Its handler,
  given a GET request, runs the file's statement on the store and answers 200.
\<close>

theorem CreateHandler_GET_on_POST_route:
  "Method (AssembleEndpoint ''Tables/users/POST/insert.sql'' ''/api/v1'') = ''POST''
   \<and> CreateHandler
         (oneFile ''Tables/users/POST/insert.sql'' ''INSERT INTO {{table}} DEFAULT VALUES'')
         recorder ''Tables/users/POST/insert.sql'' openStore
         \<lparr> reqMethod = ''GET'', reqQuery = [], reqBody = [] \<rparr>
       = (Inr \<lparr> statusCode = 200,
                 headers = corsHeaders @ [(''Content-Type'', ''application/json'')],
                 body = SuccessData (AffectedAndLastId 1 1) \<rparr>,
          openStore\<lparr>DB := Some [ExecCall ''INSERT INTO users DEFAULT VALUES'' []]\<rparr>)"
proof -
  have m: "Method (AssembleEndpoint ''Tables/users/POST/insert.sql'' ''/api/v1'') = ''POST''"
    by (simp add: AssembleEndpoint_def MethodFromPath_def go_eval)
  have h: "CreateHandler
         (oneFile ''Tables/users/POST/insert.sql'' ''INSERT INTO {{table}} DEFAULT VALUES'')
         recorder ''Tables/users/POST/insert.sql'' openStore
         \<lparr> reqMethod = ''GET'', reqQuery = [], reqBody = [] \<rparr>
       = (Inr \<lparr> statusCode = 200,
                 headers = corsHeaders @ [(''Content-Type'', ''application/json'')],
                 body = SuccessData (AffectedAndLastId 1 1) \<rparr>,
          openStore\<lparr>DB := Some [ExecCall ''INSERT INTO users DEFAULT VALUES'' []]\<rparr>)"
    by (simp add: handler_eval go_eval)
  from m h show ?thesis by blast
qed

section \<open>What the earlier handler and its method table do\<close>

text \<open>
  The check that \<^verbatim>\<open>CreateHandler\<close> lacks: the earlier handler answers a request whose
  method is not the expected one with 405 and does not touch the store.
\<close>

lemma createHandler_rejects_mismatch:
  "reqMethod r \<noteq> ''OPTIONS'' \<Longrightarrow> reqMethod r \<noteq> mapHTTPMethod (GetName m) \<Longrightarrow>
   createHandler cfg env drv m db r
     = (Inr (writeResponse (handleCORS cfg) 405
               (ErrorMessage (''Method '' @ reqMethod r @ '' not allowed. Expected ''
                                @ mapHTTPMethod (GetName m)))), db)"
  by (simp add: createHandler_def Let_def)

lemma createHandler_GET_on_insert:
  "createHandler \<lparr> EnableCORS = True, DebugMode = False \<rparr>
     (oneFile [] []) recorder
     (TableMethods ''users'' ''POST''
        \<lparr> FilePath = ''Tables/users/POST/insert.sql'',
          Content = ''INSERT INTO {{table}} DEFAULT VALUES'' \<rparr> ''insert'')
     openStore \<lparr> reqMethod = ''GET'', reqQuery = [], reqBody = [] \<rparr>
   = (Inr \<lparr> statusCode = 405,
             headers = corsHeaders @ [(''Content-Type'', ''application/json'')],
             body = ErrorMessage ''Method GET not allowed. Expected POST'' \<rparr>,
      openStore)"
  by (simp add: createHandler_def mapHTTPMethod_def writeResponse_def handleCORS_def)

text \<open>The words that \<^verbatim>\<open>MethodFromPath\<close> does not know are in the earlier table.\<close>

lemma mapHTTPMethod_more_words:
  "mapHTTPMethod ''new_user'' = ''POST'' \<and> mapHTTPMethod ''upsert_user'' = ''PUT''
   \<and> mapHTTPMethod ''edit_row'' = ''PUT'' \<and> mapHTTPMethod ''drop_all'' = ''DELETE''
   \<and> mapHTTPMethod ''destroy_all'' = ''DELETE'' \<and> mapHTTPMethod ''list_added'' = ''GET''"
  by (simp add: mapHTTPMethod_def go_eval)

end
